theory Spec2Isabelle
  imports Complex_Main "HOL-Library.Word"
begin

unbundle bit_operations_syntax

section \<open>A model of rtc-ctl, the DS1302 clock manager\<close>

text \<open>
  The definitions follow \<^verbatim>\<open>src/rtc-ctl/rtc-ctl.c\<close>. Conventions:
  \<^item> \<^verbatim>\<open>unsigned char\<close> is \<open>8 word\<close>, \<^verbatim>\<open>unsigned short\<close> is \<open>16 word\<close>,
    \<^verbatim>\<open>unsigned int\<close> is \<open>32 word\<close>; \<^verbatim>\<open>unsigned long\<close> is \<open>'w word\<close> with the
    width left open (32 bits on armhf, 64 on aarch64);
  \<^item> \<^verbatim>\<open>int\<close> values that stay far from overflow (struct tm fields, loop counters,
    a burst length) and \<^verbatim>\<open>time_t\<close> are \<open>int\<close>;
  \<^item> \<^verbatim>\<open>long double\<close> is idealised as \<open>real\<close>: every arithmetic step is exact. The
    conversion from \<^verbatim>\<open>long double\<close> to \<^verbatim>\<open>time_t\<close> truncates toward zero, as C does;
  \<^item> \<^verbatim>\<open>exit(code)\<close> is the result \<open>Inl code\<close>, paired with the state of the world at
    that moment; a normal return is \<open>Inr\<close>;
  \<^item> functions of the C library are not code of this program: they are taken as the
    parameter \<open>L\<close>, a record of functions;
  \<^item> text printed to stdout and stderr (and so the \<^verbatim>\<open>debug\<close> flag, which only
    prints) is not modelled.
\<close>

type_synonym byte = "8 word"
type_synonym ushort = "16 word"
type_synonym uint = "32 word"
type_synonym time_t = int
type_synonym ldouble = real

subsection \<open>BCD conversion and the register map\<close>

definition BCD :: "uint \<Rightarrow> uint" where
  "BCD n = push_bit 4 (n div 10) OR (n mod 10)"

definition BIN :: "uint \<Rightarrow> uint" where
  "BIN bcd = (drop_bit 4 bcd AND 0x0f) * 10 + (bcd AND 0x0f)"

definition TOY_SEC :: uint where "TOY_SEC = 0x80"
definition TOY_MIN :: uint where "TOY_MIN = 0x82"
definition TOY_HR :: uint where "TOY_HR = 0x84"
definition TOY_DAY :: uint where "TOY_DAY = 0x86"
definition TOY_MON :: uint where "TOY_MON = 0x88"
definition TOY_WDY :: uint where "TOY_WDY = 0x8A"
definition TOY_YR :: uint where "TOY_YR = 0x8C"
definition TOY_CTL :: uint where "TOY_CTL = 0x8E"
definition TOY_CBURST :: uint where "TOY_CBURST = 0xBE"
definition TOY_RAM_BASE :: uint where "TOY_RAM_BASE = 0xC0"
definition TOY_RAM_END :: uint where "TOY_RAM_END = 0xFC"
definition TOY_RBURST :: uint where "TOY_RBURST = 0xFE"

definition TOY_READ :: uint where "TOY_READ = 0x01"
definition TOY_SCATTER :: uint where "TOY_SCATTER = 0x100"
definition TOY_GATHER :: uint where "TOY_GATHER = 0x100"

definition TOY_M_HALT :: uint where "TOY_M_HALT = 0x80"
definition TOY_M_SEC :: uint where "TOY_M_SEC = 0x7F"
definition TOY_M_MIN :: uint where "TOY_M_MIN = 0x7F"
definition TOY_M_12HR :: uint where "TOY_M_12HR = 0x80"
definition TOY_M_PM :: uint where "TOY_M_PM = 0x20"
definition TOY_M_HR24 :: uint where "TOY_M_HR24 = 0x3F"
definition TOY_M_HR12 :: uint where "TOY_M_HR12 = 0x1F"
definition TOY_M_MON_MBZ :: uint where "TOY_M_MON_MBZ = 0xE0"
definition TOY_M_WP :: uint where "TOY_M_WP = 0x80"

text \<open>\<^verbatim>\<open>#define OFFSET(reg) ( ( ((reg) - TOY_SEC) >> 1 ) & 0x3F )\<close>, used on register
  addresses from \<open>TOY_SEC\<close> upwards only.\<close>

definition OFFSET :: "uint \<Rightarrow> nat" where
  "OFFSET reg = unat (drop_bit 1 (reg - TOY_SEC) AND 0x3F)"

definition TOY_CLK_REGS :: nat where
  "TOY_CLK_REGS = 1 + OFFSET TOY_CTL - OFFSET TOY_SEC"

definition TOY_RAM_REGS :: nat where
  "TOY_RAM_REGS = 1 + OFFSET TOY_RAM_END - OFFSET TOY_RAM_BASE"

definition TOY_MAX_READS :: int where
  "TOY_MAX_READS = 30000"

text \<open>An element of a C array of bytes; the arrays of the program always have the
  length that the index needs, and a read past the end (undefined in C) gives 0 here.\<close>

definition reg_at :: "byte list \<Rightarrow> nat \<Rightarrow> uint" where
  "reg_at clkregs i = (if i < length clkregs then ucast (clkregs ! i) else 0)"

subsection \<open>Civil time: struct tm, decodeTOY and the register image built by setTOY\<close>

record tm =
  tm_sec :: int
  tm_min :: int
  tm_hour :: int
  tm_mday :: int
  tm_mon :: int
  tm_year :: int
  tm_wday :: int
  tm_yday :: int
  tm_isdst :: int

text \<open>The hour field of decodeTOY (lines 1414-1425): the value of \<^verbatim>\<open>newtime.tm_hour\<close>
  from the hours register.\<close>

definition decode_hour :: "uint \<Rightarrow> int" where
  "decode_hour hr =
     (if hr AND TOY_M_12HR \<noteq> 0 then
        (let h = sint (BIN (hr AND TOY_M_HR12)) in
         if hr AND TOY_M_PM \<noteq> 0 then (if h \<noteq> 12 then h + 12 else h)
         else (if h = 12 then 0 else h))
      else sint (BIN (hr AND TOY_M_HR24)))"

text \<open>The struct tm that decodeTOY hands to \<^verbatim>\<open>timegm\<close> (lines 1411-1433). The
  subtractions are done in \<^verbatim>\<open>unsigned int\<close> and stored in an \<^verbatim>\<open>int\<close>.\<close>

definition decodeTOY_tm :: "byte list \<Rightarrow> tm" where
  "decodeTOY_tm clkregs =
     \<lparr> tm_sec = sint (BIN (reg_at clkregs (OFFSET TOY_SEC) AND TOY_M_SEC)),
       tm_min = sint (BIN (reg_at clkregs (OFFSET TOY_MIN) AND TOY_M_MIN)),
       tm_hour = decode_hour (reg_at clkregs (OFFSET TOY_HR)),
       tm_mday = sint (BIN (reg_at clkregs (OFFSET TOY_DAY))),
       tm_mon = sint (BIN (reg_at clkregs (OFFSET TOY_MON)) - 1),
       tm_year = sint (BIN (reg_at clkregs (OFFSET TOY_YR)) + 2000 - 1900),
       tm_wday = sint (BIN (reg_at clkregs (OFFSET TOY_WDY)) - 1),
       tm_yday = 0,
       tm_isdst = 0 \<rparr>"

text \<open>The remainder of C's \<^verbatim>\<open>%\<close> on \<^verbatim>\<open>int\<close>, which truncates toward zero.\<close>

definition c_rem :: "int \<Rightarrow> int \<Rightarrow> int" where
  "c_rem a b = sgn a * (\<bar>a\<bar> mod \<bar>b\<bar>)"

text \<open>The hours register that setTOY builds (lines 1184-1190); the result is stored in an
  \<^verbatim>\<open>unsigned char\<close>.\<close>

definition encode_hour :: "bool \<Rightarrow> int \<Rightarrow> byte" where
  "encode_hour hour12 h =
     ucast (if hour12 then
              (if h = 0 then TOY_M_12HR OR BCD 12
               else if h = 12 then TOY_M_12HR OR TOY_M_PM OR BCD 12
               else if h > 12 then TOY_M_12HR OR TOY_M_PM OR BCD (word_of_int (h - 12))
               else TOY_M_12HR OR BCD (word_of_int h))
            else BCD (word_of_int h))"

text \<open>The eight clock registers that setTOY writes (lines 1192-1199), in the order of
  their offsets: seconds, minutes, hours, day, month, weekday, year, control.\<close>

definition encodeTOY :: "bool \<Rightarrow> tm \<Rightarrow> byte list" where
  "encodeTOY hour12 newtime =
     [ ucast (BCD (word_of_int (tm_sec newtime))),
       ucast (BCD (word_of_int (tm_min newtime))),
       encode_hour hour12 (tm_hour newtime),
       ucast (BCD (word_of_int (tm_mday newtime))),
       ucast (BCD (word_of_int (tm_mon newtime + 1))),
       ucast (BCD (word_of_int (tm_wday newtime + 1))),
       ucast (BCD (word_of_int (c_rem (tm_year newtime + 1900) 100))),
       ucast TOY_M_WP ]"

subsection \<open>Exit codes\<close>

text \<open>The \<^verbatim>\<open>sysexits.h\<close> codes that the program passes to \<^verbatim>\<open>exit\<close>, and the signal of
  \<^verbatim>\<open>abort\<close>.\<close>

datatype exit_code =
  EX_USAGE | EX_SOFTWARE | EX_OSERR | EX_IOERR | EX_CONFIG | EX_UNAVAILABLE | EX_NOPERM
  | SIGABRT

subsection \<open>Pin access\<close>

text \<open>
  The three pins and what the program does to them. Both back ends (libgpiod and direct
  register access) issue the same sequence of operations, so one model serves both. The
  state keeps the sequence of operations done so far, in order, and the levels that the
  chip will put on the data line: \<open>io_in g k\<close> is what the \<open>k\<close>-th sample of the IO pin
  returns.
\<close>

datatype pin = CE | CK | IO

datatype gpio_event =
  SetPin pin bool | Usdelay nat | IO2input | IO2output | ReadPin bool

record gpio =
  trace :: "gpio_event list"
  io_in :: "nat \<Rightarrow> bool"
  io_pos :: nat

definition setPinValue :: "pin \<Rightarrow> bool \<Rightarrow> gpio \<Rightarrow> gpio" where
  "setPinValue p v g = g\<lparr>trace := trace g @ [SetPin p v]\<rparr>"

definition usdelay :: "nat \<Rightarrow> gpio \<Rightarrow> gpio" where
  "usdelay usecs g = g\<lparr>trace := trace g @ [Usdelay usecs]\<rparr>"

definition setIO2input :: "gpio \<Rightarrow> gpio" where
  "setIO2input g = g\<lparr>trace := trace g @ [IO2input]\<rparr>"

definition setIO2output :: "gpio \<Rightarrow> gpio" where
  "setIO2output g = g\<lparr>trace := trace g @ [IO2output]\<rparr>"

definition readPinValue :: "gpio \<Rightarrow> bool \<times> gpio" where
  "readPinValue g =
     (let b = io_in g (io_pos g)
      in (b, g\<lparr>trace := trace g @ [ReadPin b], io_pos := io_pos g + 1\<rparr>))"

text \<open>Statements run one after the other.\<close>

definition seq :: "('s \<Rightarrow> 's) list \<Rightarrow> 's \<Rightarrow> 's" where
  "seq fs s = fold (\<lambda>f. f) fs s"

subsection \<open>Bit transport: writeTOY and readTOY\<close>

text \<open>The number of bytes of a transfer (the \<^verbatim>\<open>switch\<close> at the head of writeTOY and of
  readTOY): 8 for the clock burst, the caller's \<open>n\<close> for the RAM burst, if it is in
  range, and 1 otherwise. \<open>nArg\<close> is the variadic \<^verbatim>\<open>int\<close> that is read for a RAM burst
  only.\<close>

definition burst_length :: "ushort \<Rightarrow> int \<Rightarrow> exit_code + nat" where
  "burst_length reg nArg =
     (if (ucast reg :: byte) = ucast TOY_CBURST then Inr TOY_CLK_REGS
      else if (ucast reg :: byte) = ucast TOY_RBURST then
        (if nArg \<le> 0 \<or> nArg > int TOY_RAM_REGS then Inl EX_SOFTWARE else Inr (nat nArg))
      else Inr 1)"

text \<open>One bit period of a write: data, Tdc, clock high, Tch, clock low, Tcl.\<close>

definition write_bit :: "bool \<Rightarrow> gpio \<Rightarrow> gpio" where
  "write_bit b =
     seq [setPinValue IO b, usdelay 2, setPinValue CK True, usdelay 2,
          setPinValue CK False, usdelay 2]"

text \<open>The loop \<^verbatim>\<open>for( i = 0; i < 8; i++ )\<close> of writeTOY, shifting \<open>x\<close> out LSB first;
  the first argument counts the bits that remain.\<close>

fun shift_out :: "nat \<Rightarrow> 'a::len word \<Rightarrow> gpio \<Rightarrow> gpio" where
  "shift_out 0 x g = g"
| "shift_out (Suc k) x g = shift_out k (drop_bit 1 x) (write_bit (x AND 1 \<noteq> 0) g)"

text \<open>The next data byte: from the array (gather) or from the variadic arguments; the
  model gets the bytes as a list in both cases.\<close>

definition next_byte :: "byte list \<Rightarrow> byte" where
  "next_byte ds = (case ds of [] \<Rightarrow> 0 | d # _ \<Rightarrow> d)"

fun write_bytes :: "nat \<Rightarrow> byte list \<Rightarrow> gpio \<Rightarrow> gpio" where
  "write_bytes 0 ds g = g"
| "write_bytes (Suc n) ds g = write_bytes n (tl ds) (shift_out 8 (next_byte ds) g)"

definition writeTOY :: "ushort \<Rightarrow> int \<Rightarrow> byte list \<Rightarrow> gpio \<Rightarrow> (exit_code + unit) \<times> gpio" where
  "writeTOY reg nArg ds g =
     (case burst_length reg nArg of
        Inl e \<Rightarrow> (Inl e, g)
      | Inr n \<Rightarrow>
          (Inr (),
           seq [setPinValue CK False, setPinValue CE True, usdelay 4,
                shift_out 8 reg,
                write_bytes n ds,
                setPinValue IO False, setPinValue CE False, usdelay 4] g))"

text \<open>The command loop of readTOY: as in writeTOY, but the clock stays high after the
  last command bit, so that the data pin can be turned round before the chip drives it.\<close>

fun shift_cmd :: "nat \<Rightarrow> ushort \<Rightarrow> gpio \<Rightarrow> gpio" where
  "shift_cmd 0 x g = g"
| "shift_cmd (Suc k) x g =
     shift_cmd k (drop_bit 1 x)
       (seq ([setPinValue IO (x AND 1 \<noteq> 0), usdelay 2, setPinValue CK True, usdelay 2]
             @ (if k > 0 then [setPinValue CK False, usdelay 2] else [])) g)"

text \<open>The inner loop of a read: \<open>k\<close> bits remain of the byte \<open>d\<close>; \<open>another\<close> says
  that one more byte follows (the \<^verbatim>\<open>n\<close> of \<^verbatim>\<open>if( i < 7 || n )\<close>).\<close>

fun read_bits :: "nat \<Rightarrow> bool \<Rightarrow> byte \<Rightarrow> gpio \<Rightarrow> byte \<times> gpio" where
  "read_bits 0 another d g = (d, g)"
| "read_bits (Suc k) another d g =
     (let g1 = usdelay 2 (setPinValue CK False g);
          (b, g2) = readPinValue g1;
          d1 = (if b then drop_bit 1 d OR 0x80 else drop_bit 1 d);
          g3 = (if k > 0 \<or> another then usdelay 2 (setPinValue CK True g2) else g2)
      in read_bits k another d1 g3)"

fun read_bytes :: "nat \<Rightarrow> gpio \<Rightarrow> byte list \<times> gpio" where
  "read_bytes 0 g = ([], g)"
| "read_bytes (Suc n) g =
     (let (d, g1) = read_bits 8 (n > 0) 0 g;
          (ds, g2) = read_bytes n g1
      in (d # ds, g2))"

text \<open>readTOY returns the bytes read, whether the C code stores them in an array or in
  scattered variables.\<close>

definition readTOY :: "ushort \<Rightarrow> int \<Rightarrow> gpio \<Rightarrow> (exit_code + byte list) \<times> gpio" where
  "readTOY reg nArg g =
     (case burst_length reg nArg of
        Inl e \<Rightarrow> (Inl e, g)
      | Inr n \<Rightarrow>
          (let g1 = seq [setPinValue CK False, setPinValue CE True, usdelay 4,
                         shift_cmd 8 (reg OR ucast TOY_READ),
                         setIO2input, usdelay 2] g;
               (ds, g2) = read_bytes n g1
           in (Inr ds,
               seq [setPinValue CE False, usdelay 2, setIO2output, setPinValue IO False] g2)))"

text \<open>\<^verbatim>\<open>readTOY( TOY_CBURST, clkregs )\<close>: the eight clock registers in one burst. The
  length check cannot fail for this address; the array keeps its contents if it did.\<close>

definition read_clock :: "byte list \<Rightarrow> gpio \<Rightarrow> byte list \<times> gpio" where
  "read_clock clkregs g =
     (case readTOY (ucast TOY_CBURST) 0 g of
        (Inr ds, g1) \<Rightarrow> (ds, g1)
      | (Inl e, g1) \<Rightarrow> (clkregs, g1))"

text \<open>unlockTOY: clear write protect (or set it, in test mode) and read it back.\<close>

definition unlockTOY :: "bool \<Rightarrow> gpio \<Rightarrow> (exit_code + unit) \<times> gpio" where
  "unlockTOY testmode g =
     (let setval = (if testmode then ucast TOY_M_WP else 0 :: byte);
          (_, g1) = writeTOY (ucast TOY_CTL) 0 [setval] g;
          (r, g2) = readTOY (ucast TOY_CTL OR ucast TOY_SCATTER) 0 g1;
          ctl = (case r of Inr ds \<Rightarrow> next_byte ds | Inl _ \<Rightarrow> 0)
      in if ctl \<noteq> setval then (Inl EX_CONFIG, g2) else (Inr (), g2))"

text \<open>The stabilising loop of readUpdate (lines 1247-1253) and of setTOY (lines
  1123-1129): read until the seconds change. \<open>try\<close> is the loop counter (\<^verbatim>\<open>toytime\<close> in
  readUpdate); it is not incremented when the loop is left by \<^verbatim>\<open>break\<close>. \<open>firstsec\<close> is
  an \<^verbatim>\<open>unsigned char\<close>.\<close>

function stab_loop :: "int \<Rightarrow> byte list \<Rightarrow> gpio \<Rightarrow> int \<times> byte list \<times> gpio" where
  "stab_loop try clkregs g =
     (let firstsec = (ucast (BIN (reg_at clkregs (OFFSET TOY_SEC) AND TOY_M_SEC)) :: byte);
          (clkregs1, g1) = read_clock clkregs g
      in if (ucast firstsec :: uint) \<noteq> BIN (reg_at clkregs1 (OFFSET TOY_SEC) AND TOY_M_SEC)
         then (try, clkregs1, g1)
         else (let (clkregs2, g2) = read_clock clkregs1 g1
               in if try < TOY_MAX_READS then stab_loop (try + 1) clkregs2 g2
                  else (try + 1, clkregs2, g2)))"
  by pat_completeness auto
termination
  by (relation "measure (\<lambda>(try, clkregs, g). nat (TOY_MAX_READS - try))") auto

declare stab_loop.simps [simp del]

subsection \<open>The C library, the configuration and the world\<close>

record timespec =
  tv_sec :: int
  tv_nsec :: int

text \<open>
  The C library functions that the modelled code calls, as a parameter:
  \<^item> \<open>strtold L s\<close> is the value parsed at the start of \<open>s\<close>, the number of characters
    consumed (0 when nothing was parsed: \<^verbatim>\<open>ep == line\<close>) and whether \<^verbatim>\<open>errno\<close> was set;
  \<^item> \<open>timegm L\<close> and \<open>gmtime_r L\<close> convert between struct tm and \<^verbatim>\<open>time_t\<close>
    (\<open>None\<close> is the NULL result);
  \<^item> \<open>strftime L\<close> is the text of \<^verbatim>\<open>"%a %b %d %Y %H:%M:%S"\<close>;
  \<^item> \<open>fmt_f L width prec x\<close> is the text of \<^verbatim>\<open>printf\<close> for a fixed-point conversion
    (\<^verbatim>\<open>%.9Lf\<close>, \<^verbatim>\<open>%.12Lf\<close>, \<^verbatim>\<open>%.3Lf\<close>, \<^verbatim>\<open>%03.0f\<close>).
\<close>

record libc =
  strtold :: "string \<Rightarrow> ldouble \<times> nat \<times> bool"
  timegm :: "tm \<Rightarrow> time_t"
  gmtime_r :: "time_t \<Rightarrow> tm option"
  strftime :: "tm \<Rightarrow> string"
  fmt_f :: "nat \<Rightarrow> nat \<Rightarrow> real \<Rightarrow> string"

text \<open>The command line settings that the modelled code reads (global variables in C).
  \<open>calibfilename = None\<close> is the NULL of \<^verbatim>\<open>--noadjfile\<close>.\<close>

record (overloaded) 'w config =
  calibfilename :: "string option"
  force :: bool
  hour12 :: bool
  calrundays :: "'w word"
  testmode :: bool
  quiet :: bool

datatype func = F_READ | F_SET | F_SET2SYS | F_UPDATE

text \<open>\<^verbatim>\<open>struct calib\<close>; the \<^verbatim>\<open>int valid\<close> only ever holds 0 or 1.\<close>

record calib =
  lastset :: ldouble
  driftrate :: ldouble
  valid :: bool

text \<open>A file: its bytes, whether this process may open it for reading, and its access
  and modification times.\<close>

record fileinfo =
  content :: string
  readable :: bool
  atime :: int
  mtime :: int

text \<open>What the operating system answers to each call that writeCalib and readUpdate
  check: \<open>True\<close> means that the call fails. \<open>fputc_fails\<close> is the index of the byte of
  the backup copy at which \<^verbatim>\<open>fputc\<close> fails, if any. \<open>settimeofday_errno\<close> is \<open>None\<close> when
  the call succeeds and says whether \<^verbatim>\<open>errno\<close> is \<^verbatim>\<open>EPERM\<close> otherwise.\<close>

record io_faults =
  malloc_fails :: bool
  fstat_fails :: bool
  fopen_bak_fails :: bool
  fputc_fails :: "nat option"
  fclose_bak_fails :: bool
  utime_fails :: bool
  fopen_tmp_fails :: bool
  fclose_tmp_fails :: bool
  rename_fails :: bool
  settimeofday_errno :: "bool option"

text \<open>The world outside the program: the pins, the host clock (\<open>clock w k\<close> is the result
  of the \<open>k\<close>-th call of \<^verbatim>\<open>clock_gettime\<close>, \<open>None\<close> for a failure), the files, the time
  stamp that the file system gives to a file written now, the answers of the operating
  system, and the times handed to \<^verbatim>\<open>settimeofday\<close>.\<close>

record world =
  pins :: gpio
  clock :: "nat \<Rightarrow> timespec option"
  clock_pos :: nat
  files :: "string \<Rightarrow> fileinfo option"
  fs_now :: int
  faults :: io_faults
  systime_set :: "time_t list"

definition clock_gettime :: "world \<Rightarrow> timespec option \<times> world" where
  "clock_gettime w = (clock w (clock_pos w), w\<lparr>clock_pos := clock_pos w + 1\<rparr>)"

definition ts_seconds :: "timespec \<Rightarrow> ldouble" where
  "ts_seconds ts = real_of_int (tv_sec ts) + real_of_int (tv_nsec ts) / 1000000000"

text \<open>Conversion of a \<^verbatim>\<open>long double\<close> to \<^verbatim>\<open>time_t\<close>: the fraction is discarded.\<close>

definition to_time_t :: "ldouble \<Rightarrow> time_t" where
  "to_time_t x = (if x \<ge> 0 then \<lfloor>x\<rfloor> else \<lceil>x\<rceil>)"

text \<open>\<^verbatim>\<open>calrundays * 24 * 60 * 60\<close>, computed in \<^verbatim>\<open>unsigned long\<close>.\<close>

definition calrun_seconds :: "'w::len config \<Rightarrow> ldouble" where
  "calrun_seconds cfg = real (unat (calrundays cfg * 24 * 60 * 60))"

subsection \<open>Calibration store: readCalib\<close>

definition newline :: char where
  "newline = CHR 0x0A"

text \<open>\<^verbatim>\<open>fgets( line, sz, f )\<close> on the unread rest of a file: \<open>None\<close> at end of file,
  otherwise the line (at most \<open>sz - 1\<close> characters, ending after a newline) and the rest.\<close>

fun fgets_chars :: "nat \<Rightarrow> string \<Rightarrow> string \<times> string" where
  "fgets_chars 0 s = ([], s)"
| "fgets_chars (Suc k) [] = ([], [])"
| "fgets_chars (Suc k) (c # cs) =
     (if c = newline then ([c], cs)
      else (let (l, r) = fgets_chars k cs in (c # l, r)))"

definition fgets :: "nat \<Rightarrow> string \<Rightarrow> (string \<times> string) option" where
  "fgets sz s = (if s = [] then None else Some (fgets_chars (sz - 1) s))"

text \<open>The buffer as a C string: it ends at the first NUL.\<close>

definition cstr :: "string \<Rightarrow> string" where
  "cstr l = takeWhile (\<lambda>c. c \<noteq> CHR 0x00) l"

definition char_at :: "string \<Rightarrow> nat \<Rightarrow> char" where
  "char_at s n = (if n < length s then s ! n else CHR 0x00)"

text \<open>\<^verbatim>\<open>ep == line || errno != 0 || *ep++ != ' ' || *ep != '('\<close> after a call of
  \<^verbatim>\<open>strtold\<close> that consumed \<open>n\<close> characters of \<open>s\<close>.\<close>

definition bad_number :: "string \<Rightarrow> nat \<Rightarrow> bool \<Rightarrow> bool" where
  "bad_number s n err =
     (n = 0 \<or> err \<or> char_at s n \<noteq> CHR '' '' \<or> char_at s (n + 1) \<noteq> CHR ''('')"

text \<open>\<^verbatim>\<open>fopen( name, "r" )\<close>: the file, or \<open>None\<close> for NULL (no such file, or no
  permission to read it).\<close>

definition fopen_r :: "(string \<Rightarrow> fileinfo option) \<Rightarrow> string \<Rightarrow> fileinfo option" where
  "fopen_r fs name =
     (case fs name of
        None \<Rightarrow> None
      | Some f \<Rightarrow> (if readable f then Some f else None))"

text \<open>readCalib (lines 1448-1486). The structure is cleared first and each field is
  stored as soon as it is parsed, before it is checked.\<close>

definition readCalib :: "libc \<Rightarrow> 'w::len config \<Rightarrow> (string \<Rightarrow> fileinfo option) \<Rightarrow> calib" where
  "readCalib L cfg fs =
     (let c0 = \<lparr>lastset = 0, driftrate = 0, valid = False\<rparr>
      in case calibfilename cfg of
           None \<Rightarrow> c0
         | Some name \<Rightarrow>
        (case fopen_r fs name of
           None \<Rightarrow> c0
         | Some f \<Rightarrow>
        (case fgets 100 (content f) of
           None \<Rightarrow> c0
         | Some (line1, rest1) \<Rightarrow>
        (case strtold L (cstr line1) of (v1, n1, err1) \<Rightarrow>
         let c1 = c0\<lparr>lastset := v1\<rparr>
         in if bad_number (cstr line1) n1 err1 then c1
            else
        (case fgets 100 rest1 of
           None \<Rightarrow> c1
         | Some (line2, rest2) \<Rightarrow>
        (case strtold L (cstr line2) of (v2, n2, err2) \<Rightarrow>
         let c2 = c1\<lparr>driftrate := v2\<rparr>
         in if bad_number (cstr line2) n2 err2 then c2
            else
        (case fgets 100 rest2 of
           None \<Rightarrow> c2
         | Some (line3, rest3) \<Rightarrow>
             if cstr line3 \<noteq> ''UTC'' @ [newline] then c2
             else c2\<lparr>valid := True\<rparr>)))))))"

subsection \<open>Calibration store: writeCalib\<close>

text \<open>formatTime with \<^verbatim>\<open>has_nsec == 1\<close> (lines 1629-1636): \<^verbatim>\<open>strftime\<close> into a buffer of
  130 bytes (it returns 0 when the text does not fit), \<^verbatim>\<open>abort\<close> when fewer than 5 bytes
  are left, then the milliseconds.\<close>

definition formatTime :: "libc \<Rightarrow> tm \<Rightarrow> int \<Rightarrow> exit_code + string" where
  "formatTime L t nsec =
     (let s = (if length (strftime L t) < 130 then strftime L t else [])
      in if length s \<ge> 125 then Inl SIGABRT
         else Inr (s @ ''.'' @ fmt_f L 3 0 (real_of_int nsec / 1000000)))"

text \<open>The three lines of the calibration file (the \<^verbatim>\<open>fprintf\<close> of lines 1578-1583).\<close>

definition calib_text :: "libc \<Rightarrow> calib \<Rightarrow> string \<Rightarrow> string" where
  "calib_text L c stamp =
     fmt_f L 0 9 (lastset c) @ '' ('' @ stamp @ '' UTC)'' @ [newline]
     @ fmt_f L 0 12 (driftrate c) @ '' ('' @ fmt_f L 0 3 (driftrate c * 1000000)
     @ '' PPM)'' @ [newline]
     @ ''UTC'' @ [newline]"

text \<open>A file as \<^verbatim>\<open>fopen( name, "w" )\<close> followed by writing \<open>t\<close> leaves it.\<close>

definition written :: "int \<Rightarrow> string \<Rightarrow> fileinfo" where
  "written now t = \<lparr>content = t, readable = True, atime = now, mtime = now\<rparr>"

text \<open>The index of the byte at which the copy loop's \<^verbatim>\<open>fputc\<close> fails, if it does.\<close>

definition fputc_error :: "io_faults \<Rightarrow> string \<Rightarrow> nat option" where
  "fputc_error flt txt =
     (case fputc_fails flt of
        None \<Rightarrow> None
      | Some k \<Rightarrow> (if k < length txt then Some k else None))"

text \<open>The backup of an existing calibration file (lines 1522-1565). The result is the
  exit code \<^verbatim>\<open>ret\<close>, if the step ends the program, and the files afterwards. Bytes
  written with \<^verbatim>\<open>fputc\<close> count as being in the file at once. The result of \<^verbatim>\<open>utime\<close> is
  not checked.\<close>

definition backup_calib ::
  "io_faults \<Rightarrow> int \<Rightarrow> string \<Rightarrow> (string \<Rightarrow> fileinfo option)
     \<Rightarrow> exit_code option \<times> (string \<Rightarrow> fileinfo option)" where
  "backup_calib flt now name fs =
     (case fopen_r fs name of
        None \<Rightarrow> (None, fs)
      | Some f \<Rightarrow>
          if fstat_fails flt then (Some EX_OSERR, fs)
          else if fopen_bak_fails flt then (Some EX_IOERR, fs)
          else
            (let bak = name @ ''.bak''
             in case fputc_error flt (content f) of
                  Some k \<Rightarrow> (Some EX_IOERR, fs(bak \<mapsto> written now (take k (content f))))
                | None \<Rightarrow>
                    if fclose_bak_fails flt
                    then (Some EX_IOERR, fs(bak \<mapsto> written now (content f)))
                    else if utime_fails flt
                    then (None, fs(bak \<mapsto> written now (content f)))
                    else (None, fs(bak \<mapsto> (written now (content f))
                                           \<lparr>atime := atime f, mtime := mtime f\<rparr>))))"

text \<open>The installation of the new file once the temporary file is open (lines
  1578-1595): write, close, rename. A failure of \<^verbatim>\<open>fclose\<close> or of \<^verbatim>\<open>rename\<close> prints a
  message with \<^verbatim>\<open>perror\<close> and nothing else.\<close>

definition install_calib ::
  "io_faults \<Rightarrow> int \<Rightarrow> string \<Rightarrow> string \<Rightarrow> (string \<Rightarrow> fileinfo option)
     \<Rightarrow> (string \<Rightarrow> fileinfo option)" where
  "install_calib flt now name txt fs =
     (let tmp = name @ ''.tmp''
      in if fclose_tmp_fails flt then fs(tmp \<mapsto> written now txt)
         else if rename_fails flt then fs(tmp \<mapsto> written now txt)
         else (fs(tmp := None))(name \<mapsto> written now txt))"

text \<open>writeCalib (lines 1490-1610). When the temporary file cannot be opened, the
  function prints a message and returns.\<close>

definition writeCalib ::
  "libc \<Rightarrow> 'w::len config \<Rightarrow> calib \<Rightarrow> timespec \<Rightarrow> world \<Rightarrow> (exit_code + unit) \<times> world" where
  "writeCalib L cfg c ts w =
     (case calibfilename cfg of
        None \<Rightarrow> (Inr (), w)
      | Some name \<Rightarrow>
          if \<not> valid c then (Inr (), w)
          else
            (case gmtime_r L (tv_sec ts) of
               None \<Rightarrow> (Inl EX_OSERR, w)
             | Some t \<Rightarrow>
                 if malloc_fails (faults w) then (Inl EX_OSERR, w)
                 else
                   (case backup_calib (faults w) (fs_now w) name (files w) of
                      (Some e, fs1) \<Rightarrow> (Inl e, w\<lparr>files := fs1\<rparr>)
                    | (None, fs1) \<Rightarrow>
                        if fopen_tmp_fails (faults w) then (Inr (), w\<lparr>files := fs1\<rparr>)
                        else
                          (case formatTime L t (tv_nsec ts) of
                             Inl e \<Rightarrow>
                               (Inl e, w\<lparr>files := fs1(name @ ''.tmp'' \<mapsto>
                                                         written (fs_now w) [])\<rparr>)
                           | Inr stamp \<Rightarrow>
                               (Inr (), w\<lparr>files := install_calib (faults w) (fs_now w) name
                                                     (calib_text L c stamp) fs1\<rparr>)))))"

subsection \<open>Reading the clock: decodeTOY and readUpdate\<close>

text \<open>decodeTOY (lines 1407-1444): \<^verbatim>\<open>timegm\<close> of the decoded fields; the result -1 ends
  the program.\<close>

definition decodeTOY :: "libc \<Rightarrow> byte list \<Rightarrow> exit_code + time_t" where
  "decodeTOY L clkregs =
     (let toytime = timegm L (decodeTOY_tm clkregs)
      in if toytime = -1 then Inl EX_OSERR else Inr toytime)"

text \<open>The drift correction of readUpdate (lines 1274-1317): the new value of
  \<^verbatim>\<open>toytime\<close>.\<close>

definition apply_calib :: "calib \<Rightarrow> time_t \<Rightarrow> time_t" where
  "apply_calib c toytime =
     (if valid c then
        (let correction = driftrate c
         in if correction \<noteq> 0 then
              (let elapsed = real_of_int toytime - lastset c
               in if correction < 0
                  then to_time_t (lastset c + (elapsed * (1 + \<bar>correction\<bar>)) + 0.5)
                  else to_time_t (lastset c + (elapsed / (1 + correction)) + 0.5))
            else toytime)
      else toytime)"

text \<open>The end of readUpdate (lines 1319-1401): set the system time for \<open>F_UPDATE\<close>, then
  report. \<open>r\<close> is the result of the \<^verbatim>\<open>clock_gettime\<close> taken after the stabilising loop;
  it is checked only when the times are printed.\<close>

definition update_and_report ::
  "'w::len config \<Rightarrow> func \<Rightarrow> time_t \<Rightarrow> timespec option \<Rightarrow> world
     \<Rightarrow> (exit_code + time_t) \<times> world" where
  "update_and_report cfg function toytime r w =
     (let report = (\<lambda>r1 w1. if (function = F_READ \<or> \<not> quiet cfg) \<and> r1 = None
                             then (Inl EX_OSERR, w1) else (Inr toytime, w1))
      in if function = F_UPDATE \<and> \<not> testmode cfg then
           (case settimeofday_errno (faults w) of
              Some eperm \<Rightarrow> (Inl (if eperm then EX_NOPERM else EX_OSERR), w)
            | None \<Rightarrow>
                (case clock_gettime (w\<lparr>systime_set := systime_set w @ [toytime]\<rparr>) of
                   (r1, w1) \<Rightarrow> report r1 w1))
         else report r w)"

text \<open>readUpdate (lines 1216-1402). The result of a normal return is the TOY time that
  is reported (and set as system time for \<open>F_UPDATE\<close>).\<close>

definition readUpdate ::
  "libc \<Rightarrow> 'w::len config \<Rightarrow> func \<Rightarrow> world \<Rightarrow> (exit_code + time_t) \<times> world" where
  "readUpdate L cfg function w =
     (let c = readCalib L cfg (files w);
          (clkregs, g1) = read_clock (replicate TOY_CLK_REGS 0) (pins w)
      in if reg_at clkregs (OFFSET TOY_MON) AND TOY_M_MON_MBZ \<noteq> 0
         then (Inl EX_CONFIG, w\<lparr>pins := g1\<rparr>)
         else if reg_at clkregs (OFFSET TOY_SEC) AND TOY_M_HALT \<noteq> 0
         then (Inl EX_UNAVAILABLE, w\<lparr>pins := g1\<rparr>)
         else
           (case stab_loop 0 clkregs g1 of (toytime, clkregs2, g2) \<Rightarrow>
             (case clock_gettime (w\<lparr>pins := g2\<rparr>) of (r, w3) \<Rightarrow>
                if toytime \<ge> TOY_MAX_READS then (Inl EX_IOERR, w3)
                else
                  (case decodeTOY L clkregs2 of
                     Inl e \<Rightarrow> (Inl e, w3)
                   | Inr t \<Rightarrow> update_and_report cfg function (apply_calib c t) r w3))))"

subsection \<open>Setting the clock: setTOY\<close>

text \<open>The refit of the drift rate in setTOY (lines 1104-1161): the calibration record
  afterwards. The rate is refitted only when the new time \<open>newt\<close> is more than the run
  time after the last set, the chip answers and runs, and the stabilising loop saw the
  seconds change. A quotient by zero is 0 here (infinite or NaN in C).\<close>

definition fit_drift ::
  "libc \<Rightarrow> 'w::len config \<Rightarrow> calib \<Rightarrow> time_t \<Rightarrow> world \<Rightarrow> (exit_code + calib) \<times> world" where
  "fit_drift L cfg c newt w =
     (if valid c \<and> real_of_int newt > lastset c + calrun_seconds cfg then
        (case read_clock (replicate TOY_CLK_REGS 0) (pins w) of (clkregs, g1) \<Rightarrow>
           if reg_at clkregs (OFFSET TOY_MON) AND TOY_M_MON_MBZ \<noteq> 0
           then (Inl EX_CONFIG, w\<lparr>pins := g1\<rparr>)
           else if reg_at clkregs (OFFSET TOY_SEC) AND TOY_M_HALT = 0 then
             (case stab_loop 0 clkregs g1 of (try, clkregs2, g2) \<Rightarrow>
               (case clock_gettime (w\<lparr>pins := g2\<rparr>) of
                  (None, w3) \<Rightarrow> (Inl EX_OSERR, w3)
                | (Some etime, w3) \<Rightarrow>
                    if try < TOY_MAX_READS then
                      (case decodeTOY L clkregs2 of
                         Inl e \<Rightarrow> (Inl e, w3)
                       | Inr toytime \<Rightarrow>
                           (let end_t = ts_seconds etime;
                                error = real_of_int toytime - end_t
                            in (Inr (c\<lparr>driftrate := error / (end_t - lastset c)\<rparr>), w3)))
                    else (Inr c, w3)))
           else (Inr c, w\<lparr>pins := g1\<rparr>))
      else (Inr c, w))"

text \<open>The transfer of the new time to the chip and the commit of the calibration (lines
  1169-1210).\<close>

definition commit_set ::
  "libc \<Rightarrow> 'w::len config \<Rightarrow> calib \<Rightarrow> ldouble \<Rightarrow> time_t \<Rightarrow> world
     \<Rightarrow> (exit_code + unit) \<times> world" where
  "commit_set L cfg c start newt w =
     (case clock_gettime w of
        (None, w1) \<Rightarrow> (Inl EX_OSERR, w1)
      | (Some etime, w1) \<Rightarrow>
          (let c1 = c\<lparr>lastset := ts_seconds etime\<rparr>;
               newt1 = to_time_t (real_of_int newt + (lastset c1 - start))
           in case gmtime_r L newt1 of
                None \<Rightarrow> (Inl EX_OSERR, w1)
              | Some newtime \<Rightarrow>
                  (case unlockTOY (testmode cfg) (pins w1) of
                     (Inl e, g2) \<Rightarrow> (Inl e, w1\<lparr>pins := g2\<rparr>)
                   | (Inr u, g2) \<Rightarrow>
                       (case writeTOY (ucast (TOY_CBURST OR TOY_GATHER)) 0
                               (encodeTOY (hour12 cfg) newtime) g2 of
                          (r, g3) \<Rightarrow>
                            writeCalib L cfg (c1\<lparr>valid := True\<rparr>) etime
                              (w1\<lparr>pins := g3\<rparr>)))))"

text \<open>setTOY (lines 1065-1211).\<close>

definition setTOY ::
  "libc \<Rightarrow> 'w::len config \<Rightarrow> tm \<Rightarrow> world \<Rightarrow> (exit_code + unit) \<times> world" where
  "setTOY L cfg newtime w =
     (case clock_gettime w of
        (None, w1) \<Rightarrow> (Inl EX_OSERR, w1)
      | (Some stime, w1) \<Rightarrow>
          (let start = ts_seconds stime;
               newt = timegm L newtime;
               c = readCalib L cfg (files w1)
           in if valid c \<and> \<not> force cfg
                 \<and> real_of_int (tv_sec stime) - lastset c < calrun_seconds cfg
              then (Inl EX_UNAVAILABLE, w1)
              else
                (case fit_drift L cfg c newt w1 of
                   (Inl e, w2) \<Rightarrow> (Inl e, w2)
                 | (Inr c2, w2) \<Rightarrow> commit_set L cfg c2 start newt w2)))"

subsection \<open>Register samples\<close>

text \<open>The hours register of a running chip (data sheet, and the masks \<open>TOY_M_12HR\<close>,
  \<open>TOY_M_PM\<close>, \<open>TOY_M_HR12\<close>, \<open>TOY_M_HR24\<close>): in 12-hour mode bit 7 is set, bit 5 is the
  PM flag and bits 4-0 hold the hour 1-12 in BCD; in 24-hour mode bit 7 is clear and bits
  5-0 hold the hour 0-23 in BCD.\<close>

definition hr12_sample :: "bool \<Rightarrow> nat \<Rightarrow> byte" where
  "hr12_sample pm h = ucast (TOY_M_12HR OR (if pm then TOY_M_PM else 0) OR BCD (of_nat h))"

definition hr24_sample :: "nat \<Rightarrow> byte" where
  "hr24_sample h = ucast (BCD (of_nat h))"

subsection \<open>What the chip sends\<close>

text \<open>The byte that the inner read loop assembles from the levels \<open>f p\<close>, \<open>f (p + 1)\<close>, ...
  of the data line (the first level becomes bit 0), and the eight registers of a clock
  burst whose first bit is sample number \<open>p\<close>.\<close>

fun byte_of_bits :: "nat \<Rightarrow> byte \<Rightarrow> (nat \<Rightarrow> bool) \<Rightarrow> nat \<Rightarrow> byte" where
  "byte_of_bits 0 d f p = d"
| "byte_of_bits (Suc k) d f p =
     byte_of_bits k (if f p then drop_bit 1 d OR 0x80 else drop_bit 1 d) f (Suc p)"

definition chip_sample :: "(nat \<Rightarrow> bool) \<Rightarrow> nat \<Rightarrow> byte list" where
  "chip_sample f p = map (\<lambda>i. byte_of_bits 8 0 f (p + 8 * i)) [0..<TOY_CLK_REGS]"

text \<open>The seconds of a register sample, as the stabilising loop compares them.\<close>

definition sec_of :: "byte list \<Rightarrow> uint" where
  "sec_of clkregs = BIN (reg_at clkregs (OFFSET TOY_SEC) AND TOY_M_SEC)"

text \<open>Two pin states in which the chip will answer the same way.\<close>

definition same_chip :: "gpio \<Rightarrow> gpio \<Rightarrow> bool" where
  "same_chip g g' \<longleftrightarrow> io_in g' = io_in g \<and> io_pos g' = io_pos g"

text \<open>Pins on which nothing has been done yet, with a data line that reads low for ever.\<close>

definition g0 :: gpio where
  "g0 = \<lparr>trace = [], io_in = (\<lambda>k. False), io_pos = 0\<rparr>"

text \<open>The drift-corrected time as the specification states it, before rounding.\<close>

definition corrected_exact :: "calib \<Rightarrow> time_t \<Rightarrow> real" where
  "corrected_exact c chipTime =
     (let elapsed = real_of_int chipTime - lastset c
      in if driftrate c < 0 then lastset c + elapsed * (1 + \<bar>driftrate c\<bar>)
         else lastset c + elapsed / (1 + driftrate c))"

subsection \<open>A C library for the examples\<close>

text \<open>\<^verbatim>\<open>strtold\<close> on plain decimal text: an optional minus sign, digits, and an optional
  fraction. (The C function also accepts white space, exponents, hexadecimal, infinities
  and NaN, and reports a range error; none of these occur in the examples.)\<close>

definition is_digit :: "char \<Rightarrow> bool" where
  "is_digit c = (48 \<le> (of_char c :: nat) \<and> (of_char c :: nat) \<le> 57)"

definition digits_value :: "string \<Rightarrow> nat" where
  "digits_value ds = foldl (\<lambda>a c. 10 * a + ((of_char c :: nat) - 48)) 0 ds"

definition strtold_dec :: "string \<Rightarrow> ldouble \<times> nat \<times> bool" where
  "strtold_dec s =
     (let neg = (s \<noteq> [] \<and> hd s = CHR ''-'');
          s1 = (if neg then tl s else s);
          ip = takeWhile is_digit s1;
          r1 = dropWhile is_digit s1;
          dot = (r1 \<noteq> [] \<and> hd r1 = CHR ''.'');
          fp = (if dot then takeWhile is_digit (tl r1) else []);
          v = real (digits_value ip) + real (digits_value fp) / 10 ^ length fp
      in if ip = [] \<and> fp = [] then (0, 0, False)
         else (if neg then - v else v,
               (if neg then 1 else 0) + length ip + (if dot then 1 + length fp else 0),
               False))"

text \<open>\<^verbatim>\<open>timegm\<close> and \<^verbatim>\<open>gmtime_r\<close> in the proleptic Gregorian calendar, by the usual
  days-from-civil computation; \<^verbatim>\<open>timegm\<close> normalises the month.\<close>

definition days_from_civil :: "int \<Rightarrow> int \<Rightarrow> int \<Rightarrow> int" where
  "days_from_civil y m d =
     (let y1 = (if m \<le> 2 then y - 1 else y);
          era = y1 div 400;
          yoe = y1 - era * 400;
          doy = (153 * (if m > 2 then m - 3 else m + 9) + 2) div 5 + d - 1;
          doe = yoe * 365 + yoe div 4 - yoe div 100 + doy
      in era * 146097 + doe - 719468)"

definition timegm_civil :: "tm \<Rightarrow> time_t" where
  "timegm_civil t =
     days_from_civil (tm_year t + 1900 + tm_mon t div 12) (tm_mon t mod 12 + 1) (tm_mday t)
       * 86400
     + tm_hour t * 3600 + tm_min t * 60 + tm_sec t"

definition gmtime_civil :: "time_t \<Rightarrow> tm option" where
  "gmtime_civil t =
     (let days = t div 86400;
          secs = t mod 86400;
          z = days + 719468;
          era = z div 146097;
          doe = z - era * 146097;
          yoe = (doe - doe div 1460 + doe div 36524 - doe div 146096) div 365;
          doy = doe - (365 * yoe + yoe div 4 - yoe div 100);
          mp = (5 * doy + 2) div 153;
          d = doy - (153 * mp + 2) div 5 + 1;
          m = (if mp < 10 then mp + 3 else mp - 9);
          y = yoe + era * 400 + (if m \<le> 2 then 1 else 0)
      in Some \<lparr> tm_sec = secs mod 60, tm_min = secs div 60 mod 60, tm_hour = secs div 3600,
                tm_mday = d, tm_mon = m - 1, tm_year = y - 1900,
                tm_wday = (days + 4) mod 7,
                tm_yday = days - days_from_civil y 1 1,
                tm_isdst = 0 \<rparr>)"

text \<open>Decimal text.\<close>

fun nat_digits :: "nat \<Rightarrow> string" where
  "nat_digits n =
     (if n < 10 then [''0123456789'' ! n]
      else nat_digits (n div 10) @ [''0123456789'' ! (n mod 10)])"

declare nat_digits.simps [simp del]

definition pad_left :: "nat \<Rightarrow> char \<Rightarrow> string \<Rightarrow> string" where
  "pad_left w c s = replicate (w - length s) c @ s"

text \<open>\<^verbatim>\<open>printf\<close> of \<^verbatim>\<open>%0<width>.<prec>f\<close>: fixed point, rounded half up on the exact value.\<close>

definition fmt_fixed :: "nat \<Rightarrow> nat \<Rightarrow> real \<Rightarrow> string" where
  "fmt_fixed width prec x =
     (let n = nat \<lfloor>\<bar>x\<bar> * 10 ^ prec + 1 / 2\<rfloor>;
          ip = nat_digits (n div 10 ^ prec);
          fp = (if prec = 0 then [] else ''.'' @ pad_left prec CHR ''0'' (nat_digits (n mod 10 ^ prec)));
          sgn = (if x < 0 \<and> n \<noteq> 0 then ''-'' else [])
      in sgn @ pad_left (width - length sgn) CHR ''0'' (ip @ fp))"

definition strftime_c :: "tm \<Rightarrow> string" where
  "strftime_c t =
     ([''Sun'', ''Mon'', ''Tue'', ''Wed'', ''Thu'', ''Fri'', ''Sat''] ! nat (tm_wday t mod 7))
     @ '' '' @
     ([''Jan'', ''Feb'', ''Mar'', ''Apr'', ''May'', ''Jun'', ''Jul'', ''Aug'', ''Sep'', ''Oct'',
       ''Nov'', ''Dec''] ! nat (tm_mon t mod 12))
     @ '' '' @ pad_left 2 CHR ''0'' (nat_digits (nat (tm_mday t)))
     @ '' '' @ nat_digits (nat (tm_year t + 1900))
     @ '' '' @ pad_left 2 CHR ''0'' (nat_digits (nat (tm_hour t)))
     @ '':'' @ pad_left 2 CHR ''0'' (nat_digits (nat (tm_min t)))
     @ '':'' @ pad_left 2 CHR ''0'' (nat_digits (nat (tm_sec t)))"

definition libc_ex :: libc where
  "libc_ex = \<lparr> strtold = strtold_dec, timegm = timegm_civil, gmtime_r = gmtime_civil,
               strftime = strftime_c, fmt_f = fmt_fixed \<rparr>"

subsection \<open>Example configurations and worlds\<close>

text \<open>The default configuration on a machine with a 32-bit \<^verbatim>\<open>unsigned long\<close>: the
  calibration file of \<^verbatim>\<open>CALIB_FILENAME\<close>, 12 days of minimum run time.\<close>

definition cfg_ex :: "32 config" where
  "cfg_ex = \<lparr> calibfilename = Some ''/etc/rtc-ctl.dat'', force = False, hour12 = False,
              calrundays = 12, testmode = False, quiet = False \<rparr>"

definition no_faults :: io_faults where
  "no_faults = \<lparr> malloc_fails = False, fstat_fails = False, fopen_bak_fails = False,
                 fputc_fails = None, fclose_bak_fails = False, utime_fails = False,
                 fopen_tmp_fails = False, fclose_tmp_fails = False, rename_fails = False,
                 settimeofday_errno = None \<rparr>"

text \<open>The calibration file of the README: last set on 22 September 2020, -28.975 PPM.\<close>

definition calib_file_ex :: string where
  "calib_file_ex =
     ''1600806806.087274313 (Tue Sep 22 2020 20:33:26.087 UTC)'' @ [newline]
     @ ''-0.000028974891 (-28.975 PPM)'' @ [newline]
     @ ''UTC'' @ [newline]"

definition calib_ex :: calib where
  "calib_ex = \<lparr> lastset = 1600806806.087274313, driftrate = - 0.000028974891,
                valid = True \<rparr>"


text \<open>A file system that holds the calibration file with the given contents, or no file
  at all.\<close>

definition fs_ex :: "string option \<Rightarrow> string \<Rightarrow> fileinfo option" where
  "fs_ex txt =
     (case txt of
        None \<Rightarrow> (\<lambda>name. None)
      | Some t \<Rightarrow> [''/etc/rtc-ctl.dat'' \<mapsto>
                   \<lparr>content = t, readable = True, atime = 1600806806, mtime = 1600806806\<rparr>])"

text \<open>Three chips, as the levels of the data line. \<open>chip_still\<close> sends zeros for ever: the
  clock runs (halt bit clear) but its seconds never change. \<open>chip_halted\<close> has the halt
  bit (bit 7 of the first byte) set in its first burst. \<open>chip_ticking\<close> shows second 0 in
  the first burst and second 1 in the second burst, on 1 January 2000 (day register 1,
  month register 1), and zeros after that (a control register with write protect off).\<close>

definition chip_still :: "nat \<Rightarrow> bool" where
  "chip_still k = False"

definition chip_halted :: "nat \<Rightarrow> bool" where
  "chip_halted k = (k = 7)"

definition chip_ticking :: "nat \<Rightarrow> bool" where
  "chip_ticking k = (k = 24 \<or> k = 32 \<or> k = 64 \<or> k = 88 \<or> k = 96)"

text \<open>A world with the given chip and calibration file contents, in which the host clock
  reads \<open>t0\<close>, \<open>t0 + 1\<close>, ... seconds at successive calls.\<close>

definition clock_ex :: "int \<Rightarrow> nat \<Rightarrow> timespec option" where
  "clock_ex t0 k = Some \<lparr>tv_sec = t0 + int k, tv_nsec = 0\<rparr>"

definition world_ex :: "(nat \<Rightarrow> bool) \<Rightarrow> int \<Rightarrow> string option \<Rightarrow> world" where
  "world_ex chip t0 txt =
     \<lparr> pins = \<lparr>trace = [], io_in = chip, io_pos = 0\<rparr>,
       clock = clock_ex t0,
       clock_pos = 0,
       files = fs_ex txt,
       fs_now = t0,
       faults = no_faults,
       systime_set = [] \<rparr>"

subsection \<open>The calibration file as the specification describes it\<close>





subsection \<open>More example data\<close>

text \<open>A calibration file that claims a last set on 2 October 2096 and a drift rate of
  -1 (the chip gaining no time at all); both values are exact in every binary floating
  point format.\<close>

definition calib_file_2096 :: string where
  "calib_file_2096 =
     ''4000000000.000000000 (Tue Oct 02 2096 07:06:40.000 UTC)'' @ [newline]
     @ ''-1.000000000000 (-1000000.000 PPM)'' @ [newline]
     @ ''UTC'' @ [newline]"

definition calib_2096 :: calib where
  "calib_2096 = \<lparr> lastset = 4000000000, driftrate = - 1, valid = True \<rparr>"


text \<open>23 September 2020, 20:33:26 UTC, which is 1600893206: one day after the last set of
  the example calibration file.\<close>

definition tm_young :: tm where
  "tm_young = \<lparr>tm_sec = 26, tm_min = 33, tm_hour = 20, tm_mday = 23, tm_mon = 8,
               tm_year = 120, tm_wday = 3, tm_yday = 266, tm_isdst = 0\<rparr>"

text \<open>A configured minimum of 49711 days. In seconds that is 4295030400, which is 63104
  more than \<open>2 ^ 32\<close>.\<close>

definition cfg_wrap :: "32 config" where
  "cfg_wrap = cfg_ex\<lparr>calrundays := 49711\<rparr>"

section \<open>Properties\<close>

subsection \<open>Constants of the register map\<close>

lemmas mask_defs = TOY_M_12HR_def TOY_M_PM_def TOY_M_HR12_def TOY_M_HR24_def
  TOY_M_HALT_def TOY_M_SEC_def TOY_M_MIN_def TOY_M_MON_MBZ_def TOY_M_WP_def

lemma OFFSET_simps:
  "OFFSET TOY_SEC = 0" "OFFSET TOY_MIN = 1" "OFFSET TOY_HR = 2" "OFFSET TOY_DAY = 3"
  "OFFSET TOY_MON = 4" "OFFSET TOY_WDY = 5" "OFFSET TOY_YR = 6" "OFFSET TOY_CTL = 7"
  by (simp_all add: OFFSET_def TOY_SEC_def TOY_MIN_def TOY_HR_def TOY_DAY_def TOY_MON_def
      TOY_WDY_def TOY_YR_def TOY_CTL_def)

lemma TOY_CLK_REGS_eq: "TOY_CLK_REGS = 8"
  by (simp add: TOY_CLK_REGS_def OFFSET_simps)

lemma TOY_RAM_REGS_eq: "TOY_RAM_REGS = 31"
  by (simp add: TOY_RAM_REGS_def OFFSET_def TOY_RAM_END_def TOY_RAM_BASE_def TOY_SEC_def)

subsection \<open>BCD\<close>

lemma BIN_BCD_below_100: "\<forall>m\<in>{0..<100::nat}. BIN (BCD (of_nat m)) = of_nat m"
  by code_simp

text \<open>
  C7. For every \<open>n\<close> in 0..99, converting \<open>n\<close> to packed BCD with
  \<^verbatim>\<open>((n/10)<<4) | (n%10)\<close> and back with \<^verbatim>\<open>((bcd>>4)&0xF)*10 + (bcd&0xF)\<close> gives \<open>n\<close>
  again.
\<close>

theorem BIN_BCD_roundtrip: "n < 100 \<Longrightarrow> BIN (BCD n) = n"
proof -
  assume "n < 100"
  then have "unat n \<in> {0..<100}"
    by (simp add: word_less_nat_alt)
  with BIN_BCD_below_100 have "BIN (BCD (of_nat (unat n))) = of_nat (unat n)"
    by blast
  then show ?thesis
    by simp
qed

theorem BIN_BCD_roundtrip_witness: "(59 :: uint) < 100 \<and> BIN (BCD 59) = 59 \<and> BCD 59 = 0x59"
  using BIN_BCD_roundtrip [of 59] by (simp add: BCD_def)

subsection \<open>The hour field\<close>

lemma hour_1_12: "1 \<le> h \<Longrightarrow> h \<le> 12 \<Longrightarrow> h \<in> {1, 2, 3, 4, 5, 6, 7, 8, 9, 10, 11, 12::nat}"
  by simp presburger

lemma hour_0_23: "h \<le> 23 \<Longrightarrow> h \<in> {0, 1, 2, 3, 4, 5, 6, 7, 8, 9, 10, 11, 12, 13, 14, 15, 16, 17, 18, 19, 20, 21, 22, 23::nat}"
  by simp presburger

lemmas hour_defs = encode_hour_def decode_hour_def hr12_sample_def hr24_sample_def
  BCD_def BIN_def mask_defs

lemma decode_hr12:
  assumes "1 \<le> h" "h \<le> 12"
  shows "decode_hour (ucast (hr12_sample pm h)) = int (h mod 12) + (if pm then 12 else 0)"
  using hour_1_12 [OF assms]
  by (cases pm; elim insertE emptyE; simp add: hour_defs)

lemma encode12_decode_hr12:
  assumes "1 \<le> h" "h \<le> 12"
  shows "encode_hour True (decode_hour (ucast (hr12_sample pm h))) = hr12_sample pm h"
  using hour_1_12 [OF assms]
  by (cases pm; elim insertE emptyE; simp add: hour_defs)

lemma decode_encode24_hr12:
  assumes "1 \<le> h" "h \<le> 12"
  shows "decode_hour (ucast (encode_hour False (decode_hour (ucast (hr12_sample pm h)))))
         = decode_hour (ucast (hr12_sample pm h))"
  using hour_1_12 [OF assms]
  by (cases pm; elim insertE emptyE; simp add: hour_defs)

lemma decode_hr24:
  assumes "h \<le> 23"
  shows "decode_hour (ucast (hr24_sample h)) = int h"
  using hour_0_23 [OF assms]
  by (elim insertE emptyE; simp add: hour_defs)

lemma decode_encode12_hr24:
  assumes "h \<le> 23"
  shows "decode_hour (ucast (encode_hour True (decode_hour (ucast (hr24_sample h)))))
         = decode_hour (ucast (hr24_sample h))"
  using hour_0_23 [OF assms]
  by (elim insertE emptyE; simp add: hour_defs)

lemma tm_hour_decodeTOY_tm:
  "length clkregs = TOY_CLK_REGS \<Longrightarrow>
   tm_hour (decodeTOY_tm clkregs) = decode_hour (ucast (clkregs ! OFFSET TOY_HR))"
  by (simp add: decodeTOY_tm_def reg_at_def OFFSET_simps TOY_CLK_REGS_eq)

lemma encodeTOY_hr: "encodeTOY h12 t ! OFFSET TOY_HR = encode_hour h12 (tm_hour t)"
  by (simp add: encodeTOY_def OFFSET_simps)

lemma length_encodeTOY: "length (encodeTOY h12 t) = TOY_CLK_REGS"
  by (simp add: encodeTOY_def TOY_CLK_REGS_eq)

text \<open>
  C8. For every clock register sample whose hours register is a valid 12-hour value
  (hour 1-12 with the AM/PM flag), decodeTOY maps it to the hour of day 0-23 with 12 AM
  as 0 and 12 PM as 12, the hours register that setTOY builds from it in 12-hour mode is
  the same byte, and the register that setTOY builds in 24-hour mode decodes to the same
  hour of day; vice versa, a valid 24-hour value (hour 0-23) re-encoded in 12-hour mode
  decodes to the same hour of day.
\<close>

theorem hour_roundtrip:
  assumes len: "length clkregs = TOY_CLK_REGS"
  shows "(1 \<le> h \<and> h \<le> 12 \<and> clkregs ! OFFSET TOY_HR = hr12_sample pm h \<longrightarrow>
            tm_hour (decodeTOY_tm clkregs) = int (h mod 12) + (if pm then 12 else 0)
          \<and> encodeTOY True (decodeTOY_tm clkregs) ! OFFSET TOY_HR = clkregs ! OFFSET TOY_HR
          \<and> tm_hour (decodeTOY_tm (encodeTOY False (decodeTOY_tm clkregs)))
              = tm_hour (decodeTOY_tm clkregs))
       \<and> (h \<le> 23 \<and> clkregs ! OFFSET TOY_HR = hr24_sample h \<longrightarrow>
            tm_hour (decodeTOY_tm clkregs) = int h
          \<and> tm_hour (decodeTOY_tm (encodeTOY True (decodeTOY_tm clkregs)))
              = tm_hour (decodeTOY_tm clkregs))"
proof (intro conjI impI)
  assume a: "1 \<le> h \<and> h \<le> 12 \<and> clkregs ! OFFSET TOY_HR = hr12_sample pm h"
  then have h: "1 \<le> h" "h \<le> 12" and r: "clkregs ! OFFSET TOY_HR = hr12_sample pm h"
    by simp_all
  have d: "tm_hour (decodeTOY_tm clkregs) = decode_hour (ucast (hr12_sample pm h))"
    using tm_hour_decodeTOY_tm [OF len] r by simp
  show "tm_hour (decodeTOY_tm clkregs) = int (h mod 12) + (if pm then 12 else 0)"
    using d decode_hr12 [OF h] by simp
  show "encodeTOY True (decodeTOY_tm clkregs) ! OFFSET TOY_HR = clkregs ! OFFSET TOY_HR"
    using d r encode12_decode_hr12 [OF h, of pm] by (simp only: encodeTOY_hr)
  show "tm_hour (decodeTOY_tm (encodeTOY False (decodeTOY_tm clkregs)))
          = tm_hour (decodeTOY_tm clkregs)"
    using d decode_encode24_hr12 [OF h, of pm]
    by (simp only: tm_hour_decodeTOY_tm [OF length_encodeTOY] encodeTOY_hr)
next
  assume a: "h \<le> 23 \<and> clkregs ! OFFSET TOY_HR = hr24_sample h"
  then have h: "h \<le> 23" and r: "clkregs ! OFFSET TOY_HR = hr24_sample h"
    by simp_all
  have d: "tm_hour (decodeTOY_tm clkregs) = decode_hour (ucast (hr24_sample h))"
    using tm_hour_decodeTOY_tm [OF len] r by simp
  show "tm_hour (decodeTOY_tm clkregs) = int h"
    using d decode_hr24 [OF h] by simp
  show "tm_hour (decodeTOY_tm (encodeTOY True (decodeTOY_tm clkregs)))
          = tm_hour (decodeTOY_tm clkregs)"
    using d decode_encode12_hr24 [OF h]
    by (simp only: tm_hour_decodeTOY_tm [OF length_encodeTOY] encodeTOY_hr)
qed

theorem hour_roundtrip_witness:
  "length [0x45, 0x00, 0xB2, 0x15, 0x01, 0x01, 0x23, 0x80 :: byte] = TOY_CLK_REGS
   \<and> (1::nat) \<le> 12 \<and> (12::nat) \<le> 12
   \<and> [0x45, 0x00, 0xB2, 0x15, 0x01, 0x01, 0x23, 0x80] ! OFFSET TOY_HR = hr12_sample True 12
   \<and> tm_hour (decodeTOY_tm [0x45, 0x00, 0xB2, 0x15, 0x01, 0x01, 0x23, 0x80]) = 12
   \<and> encodeTOY True (decodeTOY_tm [0x45, 0x00, 0xB2, 0x15, 0x01, 0x01, 0x23, 0x80])
        ! OFFSET TOY_HR = 0xB2
   \<and> (17::nat) \<le> 23
   \<and> [0x45, 0x00, 0x17, 0x15, 0x01, 0x01, 0x23, 0x80] ! OFFSET TOY_HR = hr24_sample 17
   \<and> tm_hour (decodeTOY_tm [0x45, 0x00, 0x17, 0x15, 0x01, 0x01, 0x23, 0x80]) = 17
   \<and> tm_hour (decodeTOY_tm (encodeTOY True
         (decodeTOY_tm [0x45, 0x00, 0x17, 0x15, 0x01, 0x01, 0x23, 0x80]))) = 17"
proof -
  have l1: "length [0x45, 0x00, 0xB2, 0x15, 0x01, 0x01, 0x23, 0x80 :: byte] = TOY_CLK_REGS"
    by (simp add: TOY_CLK_REGS_eq)
  have l2: "length [0x45, 0x00, 0x17, 0x15, 0x01, 0x01, 0x23, 0x80 :: byte] = TOY_CLK_REGS"
    by (simp add: TOY_CLK_REGS_eq)
  have s1: "[0x45, 0x00, 0xB2, 0x15, 0x01, 0x01, 0x23, 0x80] ! OFFSET TOY_HR
              = hr12_sample True 12"
    by (simp add: OFFSET_simps hour_defs)
  have s2: "[0x45, 0x00, 0x17, 0x15, 0x01, 0x01, 0x23, 0x80] ! OFFSET TOY_HR
              = hr24_sample 17"
    by (simp add: OFFSET_simps hour_defs)
  show ?thesis
    using hour_roundtrip [OF l1, of 12 True] hour_roundtrip [OF l2, of 17 True] l1 s1 s2
    by (simp add: OFFSET_simps)
qed

subsection \<open>Burst lengths\<close>

lemma burst_length_RBURST:
  "(ucast reg :: byte) = ucast TOY_RBURST \<Longrightarrow>
   burst_length reg n = (if n \<le> 0 \<or> n > 31 then Inl EX_SOFTWARE else Inr (nat n))"
  by (simp add: burst_length_def TOY_RBURST_def TOY_CBURST_def TOY_RAM_REGS_eq)

lemma burst_length_CBURST: "burst_length (ucast TOY_CBURST) n = Inr 8"
  by (simp add: burst_length_def TOY_CBURST_def TOY_CLK_REGS_eq)

subsection \<open>Pin operations leave the chip's answers alone\<close>

lemma same_chip_refl: "same_chip g g"
  by (simp add: same_chip_def)

lemma same_chip_trans: "same_chip g g1 \<Longrightarrow> same_chip g1 g2 \<Longrightarrow> same_chip g g2"
  by (simp add: same_chip_def)

lemma same_chip_ops:
  "same_chip g (setPinValue p v g)" "same_chip g (usdelay n g)"
  "same_chip g (setIO2input g)" "same_chip g (setIO2output g)"
  by (simp_all add: same_chip_def setPinValue_def usdelay_def setIO2input_def setIO2output_def)

lemma same_chip_seq:
  "(\<And>f g. f \<in> set fs \<Longrightarrow> same_chip g (f g)) \<Longrightarrow> same_chip g (seq fs g)"
  unfolding seq_def
proof (induction fs arbitrary: g)
  case Nil
  then show ?case by (simp add: same_chip_refl)
next
  case (Cons f fs)
  have "same_chip g (f g)" using Cons.prems by simp
  moreover have "same_chip (f g) (fold (\<lambda>f. f) fs (f g))"
    using Cons.IH Cons.prems by simp
  ultimately show ?case by (simp add: same_chip_trans)
qed

lemma same_chip_shift_cmd: "same_chip g (shift_cmd k x g)"
proof (induction k arbitrary: x g)
  case 0
  then show ?case by (simp add: same_chip_refl)
next
  case (Suc k)
  have "same_chip g (seq ([setPinValue IO (x AND 1 \<noteq> 0), usdelay 2, setPinValue CK True, usdelay 2]
             @ (if k > 0 then [setPinValue CK False, usdelay 2] else [])) g)"
    by (rule same_chip_seq) (auto simp: same_chip_ops)
  then show ?case using Suc.IH same_chip_trans by auto
qed

lemma same_chip_write_bit: "same_chip g (write_bit b g)"
  unfolding write_bit_def by (rule same_chip_seq) (auto simp: same_chip_ops)

lemma same_chip_shift_out: "same_chip g (shift_out k x g)"
proof (induction k arbitrary: x g)
  case 0
  then show ?case by (simp add: same_chip_refl)
next
  case (Suc k)
  then show ?case using same_chip_write_bit same_chip_trans by fastforce
qed

lemma same_chip_write_bytes: "same_chip g (write_bytes n ds g)"
proof (induction n arbitrary: ds g)
  case 0
  then show ?case by (simp add: same_chip_refl)
next
  case (Suc n)
  then show ?case using same_chip_shift_out same_chip_trans by fastforce
qed

lemma same_chip_writeTOY: "same_chip g (snd (writeTOY reg n ds g))"
proof (cases "burst_length reg n")
  case (Inl e)
  then show ?thesis by (simp add: writeTOY_def same_chip_refl)
next
  case (Inr k)
  have "same_chip g (seq [setPinValue CK False, setPinValue CE True, usdelay 4,
                shift_out 8 reg, write_bytes k ds,
                setPinValue IO False, setPinValue CE False, usdelay 4] g)"
    by (rule same_chip_seq) (auto simp: same_chip_ops same_chip_shift_out same_chip_write_bytes)
  then show ?thesis using Inr by (simp add: writeTOY_def)
qed

subsection \<open>What a read returns\<close>

lemma read_bits_eq:
  "fst (read_bits k another d g) = byte_of_bits k d (io_in g) (io_pos g)
   \<and> io_in (snd (read_bits k another d g)) = io_in g
   \<and> io_pos (snd (read_bits k another d g)) = io_pos g + k"
proof (induction k arbitrary: d g)
  case 0
  then show ?case by simp
next
  case (Suc k)
  show ?case
    by (simp add: Suc.IH readPinValue_def setPinValue_def usdelay_def Let_def)
qed

lemma read_bytes_eq:
  "fst (read_bytes n g) = map (\<lambda>i. byte_of_bits 8 0 (io_in g) (io_pos g + 8 * i)) [0..<n]
   \<and> io_in (snd (read_bytes n g)) = io_in g
   \<and> io_pos (snd (read_bytes n g)) = io_pos g + 8 * n"
proof (induction n arbitrary: g)
  case 0
  then show ?case by simp
next
  case (Suc n)
  obtain d g1 where r: "read_bits 8 (n > 0) 0 g = (d, g1)"
    by (cases "read_bits 8 (n > 0) 0 g")
  have d: "d = byte_of_bits 8 0 (io_in g) (io_pos g)"
    and g1: "io_in g1 = io_in g" "io_pos g1 = io_pos g + 8"
    using read_bits_eq [of 8 "n > 0" 0 g] r by simp_all
  obtain ds g2 where rs: "read_bytes n g1 = (ds, g2)"
    by (cases "read_bytes n g1")
  have ds: "ds = map (\<lambda>i. byte_of_bits 8 0 (io_in g) (io_pos g + 8 + 8 * i)) [0..<n]"
    and g2: "io_in g2 = io_in g" "io_pos g2 = io_pos g + 8 + 8 * n"
    using Suc.IH [of g1] rs g1 by simp_all
  have "map (\<lambda>i. byte_of_bits 8 0 (io_in g) (io_pos g + 8 * i)) [0..<Suc n]
        = d # ds"
    unfolding d ds
    by (simp add: upt_rec [of 0 "Suc n"] map_Suc_upt [symmetric] add.assoc del: upt_Suc)
  then show ?case
    using r rs g2 by simp
qed

lemma read_clock_eq:
  "read_clock regs g = (chip_sample (io_in g) (io_pos g), snd (read_clock regs g))
   \<and> io_in (snd (read_clock regs g)) = io_in g
   \<and> io_pos (snd (read_clock regs g)) = io_pos g + 64"
proof -
  define g1 where "g1 = seq [setPinValue CK False, setPinValue CE True, usdelay 4,
                         shift_cmd 8 (ucast TOY_CBURST OR ucast TOY_READ),
                         setIO2input, usdelay 2] g"
  have c1: "same_chip g g1"
    unfolding g1_def by (rule same_chip_seq) (auto simp: same_chip_ops same_chip_shift_cmd)
  obtain ds g2 where rs: "read_bytes 8 g1 = (ds, g2)"
    by (cases "read_bytes 8 g1")
  have ds: "ds = chip_sample (io_in g) (io_pos g)"
    and g2: "io_in g2 = io_in g" "io_pos g2 = io_pos g + 64"
    using read_bytes_eq [of 8 g1] rs c1 by (simp_all add: same_chip_def chip_sample_def TOY_CLK_REGS_eq)
  define g3 where "g3 = seq [setPinValue CE False, usdelay 2, setIO2output, setPinValue IO False] g2"
  have c3: "same_chip g2 g3"
    unfolding g3_def by (rule same_chip_seq) (auto simp: same_chip_ops)
  have "readTOY (ucast TOY_CBURST) 0 g = (Inr ds, g3)"
    using rs by (simp add: readTOY_def burst_length_CBURST g1_def [symmetric] g3_def)
  then have "read_clock regs g = (ds, g3)"
    by (simp add: read_clock_def)
  then show ?thesis
    using ds g2 c3 by (simp add: same_chip_def)
qed


subsection \<open>The stabilising loop on a chip whose seconds stand still\<close>

lemma unat_and_15: "unat ((y :: uint) AND 0x0f) \<le> 15"
  using word_and_le1 [of y "0x0f"] by (simp add: word_le_nat_alt)

lemma unat_BIN_le: "unat (BIN y) \<le> 165"
proof -
  have "unat (BIN y) = (unat (drop_bit 4 y AND 0x0f) * 10 mod 2 ^ 32 + unat (y AND 0x0f)) mod 2 ^ 32"
    unfolding BIN_def by (simp add: unat_word_ariths)
  also have "\<dots> \<le> unat (drop_bit 4 y AND 0x0f) * 10 mod 2 ^ 32 + unat (y AND 0x0f)"
    by (rule mod_less_eq_dividend)
  also have "\<dots> \<le> unat (drop_bit 4 y AND 0x0f) * 10 + unat (y AND 0x0f)"
    by (simp add: mod_less_eq_dividend)
  also have "\<dots> \<le> 15 * 10 + 15"
    using unat_and_15 [of "drop_bit 4 y"] unat_and_15 [of y] by linarith
  finally show ?thesis by simp
qed

lemma ucast_firstsec: "(ucast (ucast (BIN y) :: byte) :: uint) = BIN y"
proof -
  have "unat (BIN y) < 2 ^ 8" using unat_BIN_le [of y] by simp
  then have "take_bit 8 (unat (BIN y)) = unat (BIN y)"
    by (simp add: take_bit_nat_eq_self)
  then show ?thesis
    by (simp add: word_unat_eq_iff unsigned_ucast_eq unsigned_take_bit_eq)
qed


lemma stab_loop_same_sec:
  assumes "sec_of (chip_sample (io_in g) (io_pos g)) = sec_of clkregs"
  shows "stab_loop t clkregs g =
           (if t < TOY_MAX_READS
            then stab_loop (t + 1) (chip_sample (io_in g) (io_pos g + 64))
                   (snd (read_clock (chip_sample (io_in g) (io_pos g)) (snd (read_clock clkregs g))))
            else (t + 1, chip_sample (io_in g) (io_pos g + 64),
                   snd (read_clock (chip_sample (io_in g) (io_pos g)) (snd (read_clock clkregs g)))))"
proof -
  define g1 where "g1 = snd (read_clock clkregs g)"
  have r1: "read_clock clkregs g = (chip_sample (io_in g) (io_pos g), g1)"
    and g1: "io_in g1 = io_in g" "io_pos g1 = io_pos g + 64"
    using read_clock_eq [of clkregs g] by (simp_all add: g1_def)
  define g2 where "g2 = snd (read_clock (chip_sample (io_in g) (io_pos g)) g1)"
  have r2: "read_clock (chip_sample (io_in g) (io_pos g)) g1
              = (chip_sample (io_in g) (io_pos g + 64), g2)"
    using read_clock_eq [of "chip_sample (io_in g) (io_pos g)" g1] g1 by (simp add: g2_def)
  show ?thesis
    apply (subst stab_loop.simps)
    using assms
    apply (simp add: r1 r2 Let_def ucast_firstsec sec_of_def g1_def [symmetric] g2_def [symmetric])
    done
qed

lemma stab_loop_const:
  assumes "\<forall>q. sec_of (chip_sample (io_in g) (io_pos g + 64 * q)) = sec_of clkregs"
    and "t \<le> TOY_MAX_READS" and "n = nat (TOY_MAX_READS - t)"
  shows "\<exists>regs' g'. stab_loop t clkregs g = (TOY_MAX_READS + 1, regs', g')
           \<and> io_in g' = io_in g \<and> io_pos g' = io_pos g + 128 * (n + 1)"
  using assms
proof (induction n arbitrary: t clkregs g)
  case 0
  then have t: "t = TOY_MAX_READS" by simp
  have s0: "sec_of (chip_sample (io_in g) (io_pos g)) = sec_of clkregs"
    using "0.prems"(1) [rule_format, of 0] by simp
  define g1 where "g1 = snd (read_clock clkregs g)"
  have g1: "io_in g1 = io_in g" "io_pos g1 = io_pos g + 64"
    using read_clock_eq [of clkregs g] by (simp_all add: g1_def)
  define g2 where "g2 = snd (read_clock (chip_sample (io_in g) (io_pos g)) g1)"
  have g2: "io_in g2 = io_in g" "io_pos g2 = io_pos g + 128"
    using read_clock_eq [of "chip_sample (io_in g) (io_pos g)" g1] g1 by (simp_all add: g2_def)
  show ?case
    using stab_loop_same_sec [OF s0, of t] t g2
    by (simp add: g1_def [symmetric] g2_def [symmetric])
next
  case (Suc n)
  then have t: "t < TOY_MAX_READS" by simp
  have s0: "sec_of (chip_sample (io_in g) (io_pos g)) = sec_of clkregs"
    using Suc.prems(1) [rule_format, of 0] by simp
  have s1: "sec_of (chip_sample (io_in g) (io_pos g + 64)) = sec_of clkregs"
    using Suc.prems(1) [rule_format, of 1] by simp
  define g1 where "g1 = snd (read_clock clkregs g)"
  have g1: "io_in g1 = io_in g" "io_pos g1 = io_pos g + 64"
    using read_clock_eq [of clkregs g] by (simp_all add: g1_def)
  define g2 where "g2 = snd (read_clock (chip_sample (io_in g) (io_pos g)) g1)"
  have g2: "io_in g2 = io_in g" "io_pos g2 = io_pos g + 128"
    using read_clock_eq [of "chip_sample (io_in g) (io_pos g)" g1] g1 by (simp_all add: g2_def)
  have step: "stab_loop t clkregs g = stab_loop (t + 1) (chip_sample (io_in g) (io_pos g + 64)) g2"
    using stab_loop_same_sec [OF s0, of t] t
    by (simp add: g1_def [symmetric] g2_def [symmetric])
  have h: "\<forall>q. sec_of (chip_sample (io_in g2) (io_pos g2 + 64 * q))
              = sec_of (chip_sample (io_in g) (io_pos g + 64))"
  proof
    fix q
    have "io_pos g2 + 64 * q = io_pos g + 64 * (q + 2)" using g2 by simp
    then show "sec_of (chip_sample (io_in g2) (io_pos g2 + 64 * q))
              = sec_of (chip_sample (io_in g) (io_pos g + 64))"
      using Suc.prems(1) [rule_format, of "q + 2"] s1 g2 by (simp add: add.assoc)
  qed
  have "\<exists>regs' g'. stab_loop (t + 1) (chip_sample (io_in g) (io_pos g + 64)) g2
            = (TOY_MAX_READS + 1, regs', g')
           \<and> io_in g' = io_in g2 \<and> io_pos g' = io_pos g2 + 128 * (n + 1)"
  proof (rule Suc.IH [OF h])
    show "t + 1 \<le> TOY_MAX_READS" using t by simp
    show "n = nat (TOY_MAX_READS - (t + 1))" using Suc.prems(3) by linarith
  qed
  then obtain regs' g' where
    "stab_loop (t + 1) (chip_sample (io_in g) (io_pos g + 64)) g2 = (TOY_MAX_READS + 1, regs', g')"
    "io_in g' = io_in g2" "io_pos g' = io_pos g2 + 128 * (n + 1)"
    by blast
  then have "stab_loop t clkregs g = (TOY_MAX_READS + 1, regs', g')
      \<and> io_in g' = io_in g \<and> io_pos g' = io_pos g + 128 * (Suc n + 1)"
    using step g2 by simp
  then show ?case
    by blast
qed

subsection \<open>RAM bursts\<close>

lemma transfer_touches_pins:
  "burst_length reg n = Inr k \<Longrightarrow>
     trace (snd (writeTOY reg n ds g)) \<noteq> [] \<and> trace (snd (readTOY reg n g)) \<noteq> []"
  by (simp add: writeTOY_def readTOY_def seq_def usdelay_def setPinValue_def split: prod.split)

text \<open>
  C9. A RAM burst transfer, read or write, whose length is outside 1..31 (the RAM
  capacity) ends the program with \<open>EX_SOFTWARE\<close> before any pin operation: the state of
  the pins is the one before the call.
\<close>

theorem ram_burst_length_checked:
  assumes "(ucast reg :: byte) = ucast TOY_RBURST" and "n < 1 \<or> n > int TOY_RAM_REGS"
  shows "TOY_RAM_REGS = 31
       \<and> writeTOY reg n ds g = (Inl EX_SOFTWARE, g)
       \<and> readTOY reg n g = (Inl EX_SOFTWARE, g)"
  using assms by (auto simp: writeTOY_def readTOY_def burst_length_RBURST TOY_RAM_REGS_eq)

theorem ram_burst_length_checked_witness:
  "(ucast (ucast TOY_RBURST :: ushort) :: byte) = ucast TOY_RBURST
   \<and> ((32 :: int) < 1 \<or> 32 > int TOY_RAM_REGS)
   \<and> writeTOY (ucast TOY_RBURST) 32 [] g0 = (Inl EX_SOFTWARE, g0)
   \<and> readTOY (ucast TOY_RBURST) 32 g0 = (Inl EX_SOFTWARE, g0)
   \<and> trace (snd (readTOY (ucast TOY_RBURST) 32 g0)) = []"
  using ram_burst_length_checked [of "ucast TOY_RBURST" 32 "[]" g0]
  by (simp add: TOY_RBURST_def TOY_RAM_REGS_eq g0_def)

subsection \<open>writeCalib\<close>

text \<open>
  C10. writeCalib does nothing when the record is not valid or when no calibration file
  is configured: it returns normally and the world, with all its files, is unchanged.
\<close>

theorem writeCalib_noop:
  assumes "calibfilename cfg = None \<or> \<not> valid c"
  shows "writeCalib L cfg c ts w = (Inr (), w)"
  using assms by (auto simp: writeCalib_def split: option.split)

theorem writeCalib_noop_witness:
  "(calibfilename cfg_ex = None \<or> \<not> valid (calib_ex\<lparr>valid := False\<rparr>))
   \<and> writeCalib libc_ex cfg_ex (calib_ex\<lparr>valid := False\<rparr>) \<lparr>tv_sec = 1700000000, tv_nsec = 0\<rparr>
        (world_ex chip_still 1700000000 (Some calib_file_ex))
      = (Inr (), world_ex chip_still 1700000000 (Some calib_file_ex))
   \<and> (calibfilename (cfg_ex\<lparr>calibfilename := None\<rparr>) = None \<or> \<not> valid calib_ex)
   \<and> writeCalib libc_ex (cfg_ex\<lparr>calibfilename := None\<rparr>) calib_ex
        \<lparr>tv_sec = 1700000000, tv_nsec = 0\<rparr>
        (world_ex chip_still 1700000000 (Some calib_file_ex))
      = (Inr (), world_ex chip_still 1700000000 (Some calib_file_ex))"
  using writeCalib_noop [of cfg_ex "calib_ex\<lparr>valid := False\<rparr>" libc_ex
          "\<lparr>tv_sec = 1700000000, tv_nsec = 0\<rparr>"
          "world_ex chip_still 1700000000 (Some calib_file_ex)"]
        writeCalib_noop [of "cfg_ex\<lparr>calibfilename := None\<rparr>" calib_ex libc_ex
          "\<lparr>tv_sec = 1700000000, tv_nsec = 0\<rparr>"
          "world_ex chip_still 1700000000 (Some calib_file_ex)"]
  by simp

text \<open>The backup never touches the calibration file itself, and each failure that it
  detects ends the program with an error code.\<close>

lemma backup_keeps_target: "snd (backup_calib flt now name fs) name = fs name"
  by (simp add: backup_calib_def Let_def split: option.split)

lemma backup_failure:
  assumes "fopen_r fs name = Some f"
    and "fstat_fails flt \<or> fopen_bak_fails flt \<or> fputc_error flt (content f) \<noteq> None
           \<or> fclose_bak_fails flt"
  shows "fst (backup_calib flt now name fs) \<noteq> None"
  using assms by (auto simp: backup_calib_def Let_def split: option.split)

lemma backup_failure_exits:
  assumes "calibfilename cfg = Some name" "valid c" "gmtime_r L (tv_sec ts) = Some t"
    "\<not> malloc_fails (faults w)" "fopen_r (files w) name = Some f"
    "fstat_fails (faults w) \<or> fopen_bak_fails (faults w)
       \<or> fputc_error (faults w) (content f) \<noteq> None \<or> fclose_bak_fails (faults w)"
  shows "\<exists>e w'. writeCalib L cfg c ts w = (Inl e, w') \<and> files w' name = files w name"
proof -
  obtain r fs1 where b: "backup_calib (faults w) (fs_now w) name (files w) = (r, fs1)"
    by (cases "backup_calib (faults w) (fs_now w) name (files w)")
  have "r \<noteq> None"
    using backup_failure [OF assms(5,6), of "fs_now w"] b by simp
  then obtain e where r: "r = Some e" by auto
  have "fs1 name = files w name"
    using backup_keeps_target [of "faults w" "fs_now w" name "files w"] b by simp
  then show ?thesis
    using assms(1-4) b r by (simp add: writeCalib_def)
qed

text \<open>
  C4 (what the code does). When the temporary file cannot be opened or closed, or the
  rename fails, writeCalib returns normally: the caller sees no error. The calibration
  file keeps its previous contents.
\<close>

theorem install_failure_returns_normally:
  assumes "calibfilename cfg = Some name" "valid c" "gmtime_r L (tv_sec ts) = Some t"
    "\<not> malloc_fails (faults w)"
    "backup_calib (faults w) (fs_now w) name (files w) = (None, fs1)"
    "formatTime L t (tv_nsec ts) = Inr stamp"
    "fopen_tmp_fails (faults w) \<or> fclose_tmp_fails (faults w) \<or> rename_fails (faults w)"
  shows "fst (writeCalib L cfg c ts w) = Inr ()
       \<and> files (snd (writeCalib L cfg c ts w)) name = files w name"
proof -
  have b: "fs1 name = files w name"
    using backup_keeps_target [of "faults w" "fs_now w" name "files w"] assms(5) by simp
  show ?thesis
    using assms b
    by (auto simp: writeCalib_def install_calib_def Let_def)
qed


subsection \<open>Evaluating the example library\<close>

lemmas strtold_dec_eval = strtold_dec_def is_digit_def digits_value_def

lemma fgets_chars_line:
  "newline \<notin> set l \<Longrightarrow> length l < k \<Longrightarrow>
     fgets_chars k (l @ newline # rest) = (l @ [newline], rest)"
proof (induction l arbitrary: k)
  case Nil
  then show ?case by (cases k) simp_all
next
  case (Cons c l)
  then show ?case by (cases k) auto
qed

lemma fgets_line:
  "newline \<notin> set l \<Longrightarrow> length l < 99 \<Longrightarrow>
     fgets 100 (l @ newline # rest) = Some (l @ [newline], rest)"
  by (simp add: fgets_def fgets_chars_line)

lemma cstr_line: "CHR 0x00 \<notin> set l \<Longrightarrow> cstr l = l"
  by (auto simp: cstr_def)

lemma fs_ex_simps:
  "fs_ex (Some txt) ''/etc/rtc-ctl.dat''
     = Some \<lparr>content = txt, readable = True, atime = 1600806806, mtime = 1600806806\<rparr>"
  "fs_ex None name = None"
  by (simp_all add: fs_ex_def)

lemma world_ex_simps:
  "pins (world_ex chip t0 txt) = \<lparr>trace = [], io_in = chip, io_pos = 0\<rparr>"
  "clock (world_ex chip t0 txt) = clock_ex t0"
  "clock_pos (world_ex chip t0 txt) = 0"
  "files (world_ex chip t0 txt) = fs_ex txt"
  "fs_now (world_ex chip t0 txt) = t0"
  "faults (world_ex chip t0 txt) = no_faults"
  "systime_set (world_ex chip t0 txt) = []"
  by (simp_all add: world_ex_def)

lemma strtold_ex_1:
  "strtold_dec (''1600806806.087274313 (Tue Sep 22 2020 20:33:26.087 UTC)'' @ [newline])
     = (1600806806.087274313, 20, False)"
  by (simp add: strtold_dec_eval)

lemma strtold_ex_2:
  "strtold_dec (''-0.000028974891 (-28.975 PPM)'' @ [newline]) = (- 0.000028974891, 15, False)"
  by (simp add: strtold_dec_eval)

lemma readCalib_ex:
  "readCalib libc_ex cfg_ex (fs_ex (Some calib_file_ex)) = calib_ex"
proof -
  have l1: "fgets 100 calib_file_ex
     = Some (''1600806806.087274313 (Tue Sep 22 2020 20:33:26.087 UTC)'' @ [newline],
             ''-0.000028974891 (-28.975 PPM)'' @ [newline] @ ''UTC'' @ [newline])"
    unfolding calib_file_ex_def
    using fgets_line [of "''1600806806.087274313 (Tue Sep 22 2020 20:33:26.087 UTC)''"
        "''-0.000028974891 (-28.975 PPM)'' @ [newline] @ ''UTC'' @ [newline]"]
    by (simp add: newline_def)
  have l2: "fgets 100 (''-0.000028974891 (-28.975 PPM)'' @ [newline] @ ''UTC'' @ [newline])
     = Some (''-0.000028974891 (-28.975 PPM)'' @ [newline], ''UTC'' @ [newline])"
    using fgets_line [of "''-0.000028974891 (-28.975 PPM)''" "''UTC'' @ [newline]"]
    by (simp add: newline_def)
  have l3: "fgets 100 (''UTC'' @ [newline]) = Some (''UTC'' @ [newline], [])"
    using fgets_line [of "''UTC''" "[]"] by (simp add: newline_def)
  have c1: "cstr (''1600806806.087274313 (Tue Sep 22 2020 20:33:26.087 UTC)'' @ [newline])
      = ''1600806806.087274313 (Tue Sep 22 2020 20:33:26.087 UTC)'' @ [newline]"
    by (rule cstr_line) (simp add: newline_def)
  have c2: "cstr (''-0.000028974891 (-28.975 PPM)'' @ [newline])
      = ''-0.000028974891 (-28.975 PPM)'' @ [newline]"
    by (rule cstr_line) (simp add: newline_def)
  have c3: "cstr (''UTC'' @ [newline]) = ''UTC'' @ [newline]"
    by (rule cstr_line) (simp add: newline_def)
  have b1: "\<not> bad_number (''1600806806.087274313 (Tue Sep 22 2020 20:33:26.087 UTC)'' @ [newline])
              20 False"
    by (simp add: bad_number_def char_at_def)
  have b2: "\<not> bad_number (''-0.000028974891 (-28.975 PPM)'' @ [newline]) 15 False"
    by (simp add: bad_number_def char_at_def)
  show ?thesis
    by (simp add: readCalib_def cfg_ex_def fs_ex_simps fopen_r_def libc_ex_def
        l1 l2 l3 c1 c2 c3 b1 b2 strtold_ex_1 strtold_ex_2 calib_ex_def del: append.simps)
qed



subsection \<open>readCalib\<close>








subsection \<open>setTOY: a young calibration\<close>


text \<open>The product \<^verbatim>\<open>calrundays * 24 * 60 * 60\<close> is the number of seconds in \<open>calrundays\<close>
  days only when that number fits an \<^verbatim>\<open>unsigned long\<close>; otherwise it is what is left
  of it modulo \<open>2 ^ LENGTH('w)\<close>.\<close>

lemma calrun_seconds_mod:
  "calrun_seconds (cfg :: 'w::len config)
     = real (unat (calrundays cfg) * 86400 mod 2 ^ LENGTH('w))"
proof -
  have "calrundays cfg * 24 * 60 * 60 = calrundays cfg * 86400"
    by simp
  moreover have "unat (calrundays cfg * 86400)
               = unat (calrundays cfg) * unat (86400 :: 'w word) mod 2 ^ LENGTH('w)"
    by (simp only: unat_word_ariths)
  moreover have "unat (86400 :: 'w word) = 86400 mod 2 ^ LENGTH('w)"
    by (simp add: unsigned_numeral take_bit_eq_mod del: of_nat_numeral)
  ultimately have "unat (calrundays cfg * 24 * 60 * 60)
      = unat (calrundays cfg) * (86400 mod 2 ^ LENGTH('w)) mod 2 ^ LENGTH('w)"
    by (simp only:)
  then show ?thesis
    by (simp only: calrun_seconds_def mod_mult_right_eq)
qed


lemma calrun_seconds_wrap: "calrun_seconds cfg_wrap = 63104"
  by (simp add: calrun_seconds_def cfg_wrap_def cfg_ex_def)

text \<open>
  C3 (what the code does). The stored calibration is valid and the force flag is not
  given; \<open>age\<close> is the host clock less the stored time of last set. The minimum that
  setTOY compares the age with is \<^verbatim>\<open>calrundays * 24 * 60 * 60\<close> computed in
  \<^verbatim>\<open>unsigned long\<close>, that is, the number of seconds in \<open>calrundays\<close> days modulo
  \<open>2 ^ LENGTH('w)\<close>.
  \<^item> Below that value setTOY ends the program with \<open>EX_UNAVAILABLE\<close>. Nothing has been
    done by then but reading the host clock: the files, and so the stored calibration
    record, and the pins are as before.
  \<^item> So when the seconds of \<open>calrundays\<close> days fit an \<^verbatim>\<open>unsigned long\<close>, a calibration
    younger than \<open>calrundays\<close> days is refused.
  \<^item> At or above that value setTOY is not stopped: it goes on to the refit and to the
    commit, also when the age is below \<open>calrundays\<close> days.
\<close>

theorem setTOY_young_calibration_gate:
  assumes host: "clock w (clock_pos w) = Some stime"
    and v: "valid (readCalib L cfg (files w))"
    and nf: "\<not> force cfg"
    and age: "age = real_of_int (tv_sec stime) - lastset (readCalib L cfg (files w))"
  shows "(age < real (unat (calrundays cfg) * 86400 mod 2 ^ LENGTH('w))
          \<longrightarrow> setTOY L cfg newtime w = (Inl EX_UNAVAILABLE, w\<lparr>clock_pos := clock_pos w + 1\<rparr>))
       \<and> (unat (calrundays cfg) * 86400 < 2 ^ LENGTH('w)
            \<and> age < real (unat (calrundays cfg) * 86400)
          \<longrightarrow> setTOY L cfg newtime w = (Inl EX_UNAVAILABLE, w\<lparr>clock_pos := clock_pos w + 1\<rparr>))
       \<and> (\<not> age < real (unat (calrundays cfg) * 86400 mod 2 ^ LENGTH('w))
          \<longrightarrow> setTOY L (cfg :: 'w::len config) newtime w =
               (case fit_drift L cfg (readCalib L cfg (files w)) (timegm L newtime)
                       (w\<lparr>clock_pos := clock_pos w + 1\<rparr>) of
                  (Inl e, w2) \<Rightarrow> (Inl e, w2)
                | (Inr c2, w2) \<Rightarrow>
                    commit_set L cfg c2 (ts_seconds stime) (timegm L newtime) w2))"
proof -
  have refuse: "age < calrun_seconds cfg
      \<Longrightarrow> setTOY L cfg newtime w = (Inl EX_UNAVAILABLE, w\<lparr>clock_pos := clock_pos w + 1\<rparr>)"
    using host v nf age by (simp add: setTOY_def clock_gettime_def Let_def)
  have go_on: "\<not> age < calrun_seconds cfg
      \<Longrightarrow> setTOY L cfg newtime w =
               (case fit_drift L cfg (readCalib L cfg (files w)) (timegm L newtime)
                       (w\<lparr>clock_pos := clock_pos w + 1\<rparr>) of
                  (Inl e, w2) \<Rightarrow> (Inl e, w2)
                | (Inr c2, w2) \<Rightarrow>
                    commit_set L cfg c2 (ts_seconds stime) (timegm L newtime) w2)"
    using host v nf age by (simp add: setTOY_def clock_gettime_def Let_def)
  show ?thesis
    using refuse go_on by (simp add: calrun_seconds_mod)
qed

subsection \<open>writeCalib when the new file cannot be installed\<close>

lemma gmtime_ex_2023:
  "gmtime_civil 1700000000
     = Some \<lparr>tm_sec = 20, tm_min = 13, tm_hour = 22, tm_mday = 14, tm_mon = 10,
             tm_year = 123, tm_wday = 2, tm_yday = 317, tm_isdst = 0\<rparr>"
  by code_simp

lemma replicate_small:
  "replicate 2 c = [c, c]" "replicate 3 c = [c, c, c]"
  by (simp_all add: numeral_2_eq_2 numeral_3_eq_3)

lemma formatTime_ex_2023:
  "formatTime libc_ex \<lparr>tm_sec = 20, tm_min = 13, tm_hour = 22, tm_mday = 14, tm_mon = 10,
             tm_year = 123, tm_wday = 2, tm_yday = 317, tm_isdst = 0\<rparr> 0
     = Inr ''Tue Nov 14 2023 22:13:20.000''"
  by (simp add: formatTime_def libc_ex_def strftime_c_def fmt_fixed_def pad_left_def
      nat_digits.simps replicate_small)

theorem install_failure_returns_normally_witness:
  "calibfilename cfg_ex = Some ''/etc/rtc-ctl.dat''
   \<and> valid calib_ex
   \<and> rename_fails (faults (world_ex chip_still 1700000000 (Some calib_file_ex)
                              \<lparr>faults := no_faults\<lparr>rename_fails := True\<rparr>\<rparr>))
   \<and> fst (writeCalib libc_ex cfg_ex calib_ex \<lparr>tv_sec = 1700000000, tv_nsec = 0\<rparr>
            (world_ex chip_still 1700000000 (Some calib_file_ex)
               \<lparr>faults := no_faults\<lparr>rename_fails := True\<rparr>\<rparr>)) = Inr ()
   \<and> files (snd (writeCalib libc_ex cfg_ex calib_ex \<lparr>tv_sec = 1700000000, tv_nsec = 0\<rparr>
            (world_ex chip_still 1700000000 (Some calib_file_ex)
               \<lparr>faults := no_faults\<lparr>rename_fails := True\<rparr>\<rparr>))) ''/etc/rtc-ctl.dat''
       = Some \<lparr>content = calib_file_ex, readable = True, atime = 1600806806,
                mtime = 1600806806\<rparr>"
proof -
  define w where "w = world_ex chip_still 1700000000 (Some calib_file_ex)
                        \<lparr>faults := no_faults\<lparr>rename_fails := True\<rparr>\<rparr>"
  have h1: "calibfilename cfg_ex = Some ''/etc/rtc-ctl.dat''"
    by (simp add: cfg_ex_def)
  have h2: "valid calib_ex"
    by (simp add: calib_ex_def)
  have h3: "gmtime_r libc_ex (tv_sec \<lparr>tv_sec = 1700000000, tv_nsec = 0\<rparr>)
      = Some \<lparr>tm_sec = 20, tm_min = 13, tm_hour = 22, tm_mday = 14, tm_mon = 10,
             tm_year = 123, tm_wday = 2, tm_yday = 317, tm_isdst = 0\<rparr>"
    by (simp add: libc_ex_def gmtime_ex_2023)
  have h4: "\<not> malloc_fails (faults w)"
    by (simp add: w_def no_faults_def)
  have h5: "backup_calib (faults w) (fs_now w) ''/etc/rtc-ctl.dat'' (files w)
      = (None, (files w)(''/etc/rtc-ctl.dat.bak'' \<mapsto>
           \<lparr>content = calib_file_ex, readable = True, atime = 1600806806,
            mtime = 1600806806\<rparr>))"
    by (simp add: w_def backup_calib_def world_ex_simps fs_ex_simps fopen_r_def no_faults_def
        fputc_error_def written_def)
  have h6: "formatTime libc_ex \<lparr>tm_sec = 20, tm_min = 13, tm_hour = 22, tm_mday = 14,
             tm_mon = 10, tm_year = 123, tm_wday = 2, tm_yday = 317, tm_isdst = 0\<rparr>
             (tv_nsec \<lparr>tv_sec = 1700000000, tv_nsec = 0\<rparr>)
      = Inr ''Tue Nov 14 2023 22:13:20.000''"
    by (simp add: formatTime_ex_2023)
  have h7: "fopen_tmp_fails (faults w) \<or> fclose_tmp_fails (faults w) \<or> rename_fails (faults w)"
    by (simp add: w_def no_faults_def)
  have f: "files w ''/etc/rtc-ctl.dat''
      = Some \<lparr>content = calib_file_ex, readable = True, atime = 1600806806,
                mtime = 1600806806\<rparr>"
    by (simp add: w_def world_ex_simps fs_ex_simps)
  show ?thesis
    using install_failure_returns_normally [OF h1 h2 h3 h4 h5 h6 h7] h1 h2 f
    by (simp add: w_def [symmetric]) (simp add: w_def no_faults_def)
qed


subsection \<open>readUpdate on a chip whose seconds stand still\<close>

text \<open>
  C6 (what the code does). On a chip that is present and running but whose seconds never
  change from one burst read to the next, readUpdate terminates and ends the program
  with \<open>EX_IOERR\<close> ("TOY does not seem to be running"). The loop counter ends at
  \<open>TOY_MAX_READS + 1\<close>: the loop body, with its comparison, has run 30001 times, and the
  chip has been read 1 + 2 * 30001 times (64 bits each).
\<close>

theorem readUpdate_seconds_stand_still:
  assumes still: "\<forall>q. sec_of (chip_sample (io_in (pins w)) (io_pos (pins w) + 64 * q))
                        = sec_of (chip_sample (io_in (pins w)) (io_pos (pins w)))"
    and present: "reg_at (chip_sample (io_in (pins w)) (io_pos (pins w))) (OFFSET TOY_MON)
                    AND TOY_M_MON_MBZ = 0"
    and running: "reg_at (chip_sample (io_in (pins w)) (io_pos (pins w))) (OFFSET TOY_SEC)
                    AND TOY_M_HALT = 0"
  shows "fst (readUpdate L cfg function w) = Inl EX_IOERR
       \<and> io_pos (pins (snd (readUpdate L cfg function w)))
           = io_pos (pins w) + 64 * (1 + 2 * 30001)
       \<and> fst (stab_loop 0 (chip_sample (io_in (pins w)) (io_pos (pins w)))
                 (snd (read_clock (replicate TOY_CLK_REGS 0) (pins w)))) = 30001"
proof -
  define s0 where "s0 = chip_sample (io_in (pins w)) (io_pos (pins w))"
  define g1 where "g1 = snd (read_clock (replicate TOY_CLK_REGS 0) (pins w))"
  have r1: "read_clock (replicate TOY_CLK_REGS 0) (pins w) = (s0, g1)"
    and g1: "io_in g1 = io_in (pins w)" "io_pos g1 = io_pos (pins w) + 64"
    using read_clock_eq [of "replicate TOY_CLK_REGS 0" "pins w"]
    by (simp_all add: s0_def g1_def)
  have h: "\<forall>q. sec_of (chip_sample (io_in g1) (io_pos g1 + 64 * q)) = sec_of s0"
  proof
    fix q
    show "sec_of (chip_sample (io_in g1) (io_pos g1 + 64 * q)) = sec_of s0"
      using still [rule_format, of "q + 1"] g1 by (simp add: s0_def add.assoc)
  qed
  obtain regs' g' where
    l: "stab_loop 0 s0 g1 = (TOY_MAX_READS + 1, regs', g')"
    and g': "io_in g' = io_in g1" "io_pos g' = io_pos g1 + 128 * (30000 + 1)"
    using stab_loop_const [OF h, of 0 30000] by (auto simp: TOY_MAX_READS_def)
  have "readUpdate L cfg function w
          = (Inl EX_IOERR, w\<lparr>pins := g', clock_pos := clock_pos w + 1\<rparr>)"
    using present running r1 l
    by (simp add: readUpdate_def s0_def [symmetric] clock_gettime_def TOY_MAX_READS_def)
  then show ?thesis
    using l g' g1 by (simp add: s0_def g1_def TOY_MAX_READS_def)
qed

lemma byte_of_bits_still: "byte_of_bits k 0 chip_still p = 0"
  by (induction k arbitrary: p) (simp_all add: chip_still_def)

lemma chip_sample_still: "chip_sample chip_still p = replicate 8 0"
  by (simp add: chip_sample_def byte_of_bits_still TOY_CLK_REGS_eq map_replicate_const)

theorem readUpdate_seconds_stand_still_witness:
  "reg_at (chip_sample chip_still 0) (OFFSET TOY_MON) AND TOY_M_MON_MBZ = 0
   \<and> reg_at (chip_sample chip_still 0) (OFFSET TOY_SEC) AND TOY_M_HALT = 0
   \<and> fst (readUpdate libc_ex cfg_ex F_READ (world_ex chip_still 1700000000 None))
       = Inl EX_IOERR
   \<and> io_pos (pins (snd (readUpdate libc_ex cfg_ex F_READ
                            (world_ex chip_still 1700000000 None)))) = 64 * 60003"
proof -
  define w where "w = world_ex chip_still 1700000000 None"
  have p: "io_in (pins w) = chip_still" "io_pos (pins w) = 0"
    by (simp_all add: w_def world_ex_simps)
  have a: "\<forall>q. sec_of (chip_sample (io_in (pins w)) (io_pos (pins w) + 64 * q))
                        = sec_of (chip_sample (io_in (pins w)) (io_pos (pins w)))"
    by (simp add: p chip_sample_still)
  have b: "reg_at (chip_sample (io_in (pins w)) (io_pos (pins w))) (OFFSET TOY_MON)
                    AND TOY_M_MON_MBZ = 0"
    by (simp add: p chip_sample_still reg_at_def)
  have c: "reg_at (chip_sample (io_in (pins w)) (io_pos (pins w))) (OFFSET TOY_SEC)
                    AND TOY_M_HALT = 0"
    by (simp add: p chip_sample_still reg_at_def)
  show ?thesis
    using readUpdate_seconds_stand_still [OF a b c, of libc_ex cfg_ex F_READ] b c
    by (simp add: p w_def [symmetric])
qed


subsection \<open>Evaluating reads of the example chips\<close>

lemma upt_0_8: "[0..<8] = [0, 1, 2, 3, 4, 5, 6, 7::nat]"
  by code_simp

lemma chip_sample_unfold:
  "chip_sample f p =
     [byte_of_bits 8 0 f p, byte_of_bits 8 0 f (p + 8), byte_of_bits 8 0 f (p + 16),
      byte_of_bits 8 0 f (p + 24), byte_of_bits 8 0 f (p + 32), byte_of_bits 8 0 f (p + 40),
      byte_of_bits 8 0 f (p + 48), byte_of_bits 8 0 f (p + 56)]"
  by (simp add: chip_sample_def TOY_CLK_REGS_eq upt_0_8)

lemma byte_of_bits_step:
  "0 < k \<Longrightarrow>
     byte_of_bits k d f p
       = byte_of_bits (k - 1) (if f p then drop_bit 1 d OR 0x80 else drop_bit 1 d) f (p + 1)"
  by (cases k) simp_all

lemma chip_sample_ticking_0: "chip_sample chip_ticking 0 = [0, 0, 0, 1, 1, 0, 0, 0]"
  by (simp add: chip_sample_unfold byte_of_bits_step chip_ticking_def)

lemma chip_sample_ticking_64: "chip_sample chip_ticking 64 = [1, 0, 0, 1, 1, 0, 0, 0]"
  by (simp add: chip_sample_unfold byte_of_bits_step chip_ticking_def)

lemma chip_sample_halted_0: "chip_sample chip_halted 0 = [0x80, 0, 0, 0, 0, 0, 0, 0]"
  by (simp add: chip_sample_unfold byte_of_bits_step chip_halted_def)



subsection \<open>Reading a well-formed calibration file\<close>

lemma readCalib_three_lines:
  assumes "calibfilename cfg = Some name" and "fopen_r fs name = Some f"
    and "content f = l1 @ newline # l2 @ newline # ''UTC'' @ [newline]"
    and "newline \<notin> set l1" "length l1 < 99" "CHR 0x00 \<notin> set l1"
    and "newline \<notin> set l2" "length l2 < 99" "CHR 0x00 \<notin> set l2"
    and "strtold L (l1 @ [newline]) = (v1, n1, False)"
    and "\<not> bad_number (l1 @ [newline]) n1 False"
    and "strtold L (l2 @ [newline]) = (v2, n2, False)"
    and "\<not> bad_number (l2 @ [newline]) n2 False"
  shows "readCalib L cfg fs = \<lparr>lastset = v1, driftrate = v2, valid = True\<rparr>"
proof -
  have g1: "fgets 100 (content f) = Some (l1 @ [newline], l2 @ newline # ''UTC'' @ [newline])"
    using assms(3-5) by (simp add: fgets_line)
  have g2: "fgets 100 (l2 @ newline # ''UTC'' @ [newline])
              = Some (l2 @ [newline], ''UTC'' @ [newline])"
    using assms(7,8) by (simp add: fgets_line)
  have g3: "fgets 100 (''UTC'' @ [newline]) = Some (''UTC'' @ [newline], [])"
    using fgets_line [of "''UTC''" "[]"] by (simp add: newline_def)
  have c1: "cstr (l1 @ [newline]) = l1 @ [newline]"
    using assms(6) by (intro cstr_line) (simp add: newline_def)
  have c2: "cstr (l2 @ [newline]) = l2 @ [newline]"
    using assms(9) by (intro cstr_line) (simp add: newline_def)
  have c3: "cstr (''UTC'' @ [newline]) = ''UTC'' @ [newline]"
    by (rule cstr_line) (simp add: newline_def)
  show ?thesis
    using assms(1,2,10-13)
    by (simp add: readCalib_def g1 g2 g3 c1 c2 c3 del: append.simps)
qed

lemma readCalib_2096:
  "readCalib libc_ex cfg_ex (fs_ex (Some calib_file_2096)) = calib_2096"
proof -
  have "readCalib libc_ex cfg_ex (fs_ex (Some calib_file_2096))
          = \<lparr>lastset = 4000000000, driftrate = - 1, valid = True\<rparr>"
  proof (rule readCalib_three_lines)
    show "calibfilename cfg_ex = Some ''/etc/rtc-ctl.dat''"
      by (simp add: cfg_ex_def)
    show "fopen_r (fs_ex (Some calib_file_2096)) ''/etc/rtc-ctl.dat''
            = Some \<lparr>content = calib_file_2096, readable = True, atime = 1600806806,
                     mtime = 1600806806\<rparr>"
      by (simp add: fopen_r_def fs_ex_simps)
    show "content \<lparr>content = calib_file_2096, readable = True, atime = 1600806806,
                     mtime = 1600806806\<rparr>
            = ''4000000000.000000000 (Tue Oct 02 2096 07:06:40.000 UTC)'' @ newline
              # ''-1.000000000000 (-1000000.000 PPM)'' @ newline # ''UTC'' @ [newline]"
      by (simp add: calib_file_2096_def)
    show "strtold libc_ex (''4000000000.000000000 (Tue Oct 02 2096 07:06:40.000 UTC)''
            @ [newline]) = (4000000000, 20, False)"
      by (simp add: libc_ex_def strtold_dec_eval)
    show "strtold libc_ex (''-1.000000000000 (-1000000.000 PPM)'' @ [newline])
            = (- 1, 15, False)"
      by (simp add: libc_ex_def strtold_dec_eval)
  qed (simp_all add: newline_def bad_number_def char_at_def)
  then show ?thesis
    by (simp add: calib_2096_def)
qed


subsection \<open>The drift correction\<close>

lemma to_time_t_nonneg: "0 \<le> x \<Longrightarrow> to_time_t x = \<lfloor>x\<rfloor>"
  by (simp add: to_time_t_def)

text \<open>Without a valid calibration, or with a drift rate of zero, the chip time is
  returned unchanged.\<close>

lemma apply_calib_unchanged:
  "\<not> valid c \<or> driftrate c = 0 \<Longrightarrow> apply_calib c toytime = toytime"
  by (auto simp: apply_calib_def)

text \<open>With a valid calibration and a nonzero drift rate, the result is the corrected
  time of the specification, plus one half, truncated; this is the nearest whole second
  as long as the corrected time is not below \<open>- 1 / 2\<close>.\<close>

lemma apply_calib_formula:
  "valid c \<Longrightarrow> driftrate c \<noteq> 0 \<Longrightarrow>
     apply_calib c toytime = to_time_t (corrected_exact c toytime + 1 / 2)"
  by (simp add: apply_calib_def corrected_exact_def Let_def)

lemma apply_calib_nearest:
  assumes "valid c" "driftrate c \<noteq> 0" "- 1 / 2 \<le> corrected_exact c toytime"
  shows "apply_calib c toytime = round (corrected_exact c toytime)"
proof -
  have "0 \<le> corrected_exact c toytime + 1 / 2"
    using assms(3) by simp
  then show ?thesis
    using assms(1,2) by (simp add: apply_calib_formula to_time_t_nonneg round_def)
qed

subsection \<open>readUpdate on a chip that ticks\<close>

lemma stab_loop_changed:
  assumes "sec_of (chip_sample (io_in g) (io_pos g)) \<noteq> sec_of clkregs"
  shows "stab_loop t clkregs g
           = (t, chip_sample (io_in g) (io_pos g), snd (read_clock clkregs g))"
proof -
  have r1: "read_clock clkregs g
              = (chip_sample (io_in g) (io_pos g), snd (read_clock clkregs g))"
    using read_clock_eq [of clkregs g] by simp
  show ?thesis
    apply (subst stab_loop.simps)
    apply (subst r1)
    using assms
    apply (simp add: Let_def ucast_firstsec sec_of_def)
    done
qed

lemma readUpdate_first_change:
  assumes present: "reg_at (chip_sample (io_in (pins w)) (io_pos (pins w))) (OFFSET TOY_MON)
                    AND TOY_M_MON_MBZ = 0"
    and running: "reg_at (chip_sample (io_in (pins w)) (io_pos (pins w))) (OFFSET TOY_SEC)
                    AND TOY_M_HALT = 0"
    and changed: "sec_of (chip_sample (io_in (pins w)) (io_pos (pins w) + 64))
                    \<noteq> sec_of (chip_sample (io_in (pins w)) (io_pos (pins w)))"
    and decoded: "decodeTOY L (chip_sample (io_in (pins w)) (io_pos (pins w) + 64)) = Inr t"
    and clock: "clock w (clock_pos w) \<noteq> None"
  shows "fst (readUpdate L cfg F_READ w) = Inr (apply_calib (readCalib L cfg (files w)) t)"
proof -
  define s0 where "s0 = chip_sample (io_in (pins w)) (io_pos (pins w))"
  define g1 where "g1 = snd (read_clock (replicate TOY_CLK_REGS 0) (pins w))"
  have r1: "read_clock (replicate TOY_CLK_REGS 0) (pins w) = (s0, g1)"
    and g1: "io_in g1 = io_in (pins w)" "io_pos g1 = io_pos (pins w) + 64"
    using read_clock_eq [of "replicate TOY_CLK_REGS 0" "pins w"]
    by (simp_all add: s0_def g1_def)
  have l: "stab_loop 0 s0 g1
             = (0, chip_sample (io_in (pins w)) (io_pos (pins w) + 64), snd (read_clock s0 g1))"
    using stab_loop_changed [of g1 s0 0] changed g1 by (simp add: s0_def)
  show ?thesis
    using present running r1 l decoded clock
    by (simp add: readUpdate_def s0_def [symmetric] clock_gettime_def TOY_MAX_READS_def
        update_and_report_def)
qed

lemma decodeTOY_ticking_64: "decodeTOY libc_ex [1, 0, 0, 1, 1, 0, 0, 0] = Inr 946684801"
proof -
  have "decodeTOY_tm [1, 0, 0, 1, 1, 0, 0, 0]
          = \<lparr>tm_sec = 1, tm_min = 0, tm_hour = 0, tm_mday = 1, tm_mon = 0, tm_year = 100,
             tm_wday = - 1, tm_yday = 0, tm_isdst = 0\<rparr>"
    by (simp add: decodeTOY_tm_def reg_at_def OFFSET_simps decode_hour_def BIN_def mask_defs)
  moreover have "timegm_civil \<lparr>tm_sec = 1, tm_min = 0, tm_hour = 0, tm_mday = 1, tm_mon = 0,
             tm_year = 100, tm_wday = - 1, tm_yday = 0, tm_isdst = 0\<rparr> = 946684801"
    by (simp add: timegm_civil_def days_from_civil_def)
  ultimately show ?thesis
    by (simp add: decodeTOY_def libc_ex_def)
qed

lemma readUpdate_ticking:
  "fst (readUpdate libc_ex cfg_ex F_READ (world_ex chip_ticking t0 txt))
     = Inr (apply_calib (readCalib libc_ex cfg_ex (fs_ex txt)) 946684801)"
proof -
  define w where "w = world_ex chip_ticking t0 txt"
  have p: "io_in (pins w) = chip_ticking" "io_pos (pins w) = 0" "files w = fs_ex txt"
    by (simp_all add: w_def world_ex_simps)
  have "fst (readUpdate libc_ex cfg_ex F_READ w)
          = Inr (apply_calib (readCalib libc_ex cfg_ex (files w)) 946684801)"
  proof (rule readUpdate_first_change)
    show "clock w (clock_pos w) \<noteq> None"
      by (simp add: w_def world_ex_simps clock_ex_def)
  qed (simp_all add: p chip_sample_ticking_0 chip_sample_ticking_64 decodeTOY_ticking_64
        reg_at_def OFFSET_simps sec_of_def BIN_def mask_defs)
  then show ?thesis
    by (simp add: w_def world_ex_simps)
qed

text \<open>
  C1 (where the code departs from it). The calibration file says: last set at
  4000000000 (in 2096), drift rate -1. The chip reads 1 January 2000, 00:00:01, which is
  946684801. The corrected time of the formula is 4000000000 + (946684801 - 4000000000)
  * 2 = -2106630398 exactly, a whole number of seconds; readUpdate reports -2106630397.
\<close>

theorem readUpdate_negative_time_off_by_one:
  "fst (readUpdate libc_ex cfg_ex F_READ (world_ex chip_ticking 1700000000 (Some calib_file_2096)))
     = Inr (- 2106630397)
   \<and> readCalib libc_ex cfg_ex (fs_ex (Some calib_file_2096)) = calib_2096
   \<and> corrected_exact calib_2096 946684801 = - 2106630398
   \<and> round (corrected_exact calib_2096 946684801) = - 2106630398
   \<and> apply_calib calib_2096 946684801 = - 2106630397"
proof -
  have e: "corrected_exact calib_2096 946684801 = - 2106630398"
    by (simp add: corrected_exact_def calib_2096_def)
  have a: "apply_calib calib_2096 946684801 = - 2106630397"
    by (simp add: apply_calib_def calib_2096_def to_time_t_def)
  show ?thesis
    by (simp add: readUpdate_ticking readCalib_2096 e a)
qed


subsection \<open>setTOY: the refit of the drift rate\<close>


lemma fit_drift_due:
  assumes "valid c" "real_of_int newt > lastset c + calrun_seconds cfg"
    and s0: "s0 = chip_sample (io_in (pins w)) (io_pos (pins w))"
    and g1: "g1 = snd (read_clock (replicate TOY_CLK_REGS 0) (pins w))"
    and present: "reg_at s0 (OFFSET TOY_MON) AND TOY_M_MON_MBZ = 0"
  shows "fit_drift L cfg c newt w =
     (if reg_at s0 (OFFSET TOY_SEC) AND TOY_M_HALT = 0 then
        (case stab_loop 0 s0 g1 of (try, clkregs2, g2) \<Rightarrow>
           (case clock w (clock_pos w) of
              None \<Rightarrow> (Inl EX_OSERR, w\<lparr>pins := g2, clock_pos := clock_pos w + 1\<rparr>)
            | Some etime \<Rightarrow>
                if try < TOY_MAX_READS then
                  (case decodeTOY L clkregs2 of
                     Inl e \<Rightarrow> (Inl e, w\<lparr>pins := g2, clock_pos := clock_pos w + 1\<rparr>)
                   | Inr toytime \<Rightarrow>
                       (Inr (c\<lparr>driftrate := (real_of_int toytime - ts_seconds etime)
                                              / (ts_seconds etime - lastset c)\<rparr>),
                        w\<lparr>pins := g2, clock_pos := clock_pos w + 1\<rparr>))
                else (Inr c, w\<lparr>pins := g2, clock_pos := clock_pos w + 1\<rparr>)))
      else (Inr c, w\<lparr>pins := g1\<rparr>))"
proof -
  have r1: "read_clock (replicate TOY_CLK_REGS 0) (pins w) = (s0, g1)"
    using read_clock_eq [of "replicate TOY_CLK_REGS 0" "pins w"] by (simp add: s0 g1)
  show ?thesis
    using assms(1,2) present
    by (simp add: fit_drift_def r1 clock_gettime_def Let_def
        split: prod.split option.split sum.split)
qed


subsection \<open>setTOY: the commit\<close>

lemma burst_length_CTL:
  "burst_length (ucast TOY_CTL) n = Inr 1"
  "burst_length (ucast TOY_CTL OR ucast TOY_SCATTER) n = Inr 1"
  "burst_length (ucast (TOY_CBURST OR TOY_GATHER)) n = Inr 8"
  by (simp_all add: burst_length_def TOY_CTL_def TOY_SCATTER_def TOY_CBURST_def TOY_RBURST_def
      TOY_GATHER_def TOY_CLK_REGS_eq)

lemma readTOY_eq:
  assumes "burst_length reg n = Inr k"
  shows "fst (readTOY reg n g)
           = Inr (map (\<lambda>i. byte_of_bits 8 0 (io_in g) (io_pos g + 8 * i)) [0..<k])
       \<and> io_in (snd (readTOY reg n g)) = io_in g
       \<and> io_pos (snd (readTOY reg n g)) = io_pos g + 8 * k"
proof -
  define g1 where "g1 = seq [setPinValue CK False, setPinValue CE True, usdelay 4,
                         shift_cmd 8 (reg OR ucast TOY_READ),
                         setIO2input, usdelay 2] g"
  have c1: "same_chip g g1"
    unfolding g1_def by (rule same_chip_seq) (auto simp: same_chip_ops same_chip_shift_cmd)
  obtain ds g2 where rs: "read_bytes k g1 = (ds, g2)"
    by (cases "read_bytes k g1")
  have ds: "ds = map (\<lambda>i. byte_of_bits 8 0 (io_in g) (io_pos g + 8 * i)) [0..<k]"
    and g2: "io_in g2 = io_in g" "io_pos g2 = io_pos g + 8 * k"
    using read_bytes_eq [of k g1] rs c1 by (simp_all add: same_chip_def)
  define g3 where "g3 = seq [setPinValue CE False, usdelay 2, setIO2output, setPinValue IO False] g2"
  have c3: "same_chip g2 g3"
    unfolding g3_def by (rule same_chip_seq) (auto simp: same_chip_ops)
  have "readTOY reg n g = (Inr ds, g3)"
    using rs assms by (simp add: readTOY_def g1_def [symmetric] g3_def)
  then show ?thesis
    using ds g2 c3 by (simp add: same_chip_def)
qed

lemma unlockTOY_eq:
  "fst (unlockTOY tmode g)
     = (if byte_of_bits 8 0 (io_in g) (io_pos g) \<noteq> (if tmode then ucast TOY_M_WP else 0)
        then Inl EX_CONFIG else Inr ())"
proof -
  define setval where "setval = (if tmode then ucast TOY_M_WP else 0 :: byte)"
  obtain u g1 where w: "writeTOY (ucast TOY_CTL) 0 [setval] g = (u, g1)"
    by (cases "writeTOY (ucast TOY_CTL) 0 [setval] g")
  have c1: "same_chip g g1"
    using same_chip_writeTOY [of g "ucast TOY_CTL" 0 "[setval]"] w by simp
  obtain r g2 where rd: "readTOY (ucast TOY_CTL OR ucast TOY_SCATTER) 0 g1 = (r, g2)"
    by (cases "readTOY (ucast TOY_CTL OR ucast TOY_SCATTER) 0 g1")
  have r: "r = Inr [byte_of_bits 8 0 (io_in g) (io_pos g)]"
    using readTOY_eq [OF burst_length_CTL(2), of 0 g1] c1 rd by (simp add: same_chip_def)
  show ?thesis
    by (simp add: unlockTOY_def setval_def [symmetric] w rd r next_byte_def)
qed

text \<open>When nothing fails, the commit writes the record it was given, with the new time of
  last set and marked valid, to the calibration file: the drift rate is the one that the
  refit step left.\<close>

lemma commit_set_persists:
  assumes "clock w (clock_pos w) = Some etime"
    and "gmtime_r L (to_time_t (real_of_int newt + (ts_seconds etime - start))) = Some newtime"
    and "fst (unlockTOY (testmode cfg) (pins w)) = Inr ()"
    and "calibfilename cfg = Some name"
    and "gmtime_r L (tv_sec etime) = Some t"
    and "formatTime L t (tv_nsec etime) = Inr stamp"
    and "faults w = no_faults"
  shows "fst (commit_set L cfg c start newt w) = Inr ()
       \<and> files (snd (commit_set L cfg c start newt w)) name
           = Some (written (fs_now w)
                (calib_text L (c\<lparr>lastset := ts_seconds etime, valid := True\<rparr>) stamp))"
proof -
  obtain u g2 where u: "unlockTOY (testmode cfg) (pins w) = (u, g2)"
    by (cases "unlockTOY (testmode cfg) (pins w)")
  have u': "u = Inr ()" using assms(3) u by simp
  obtain r g3 where wr: "writeTOY (ucast (TOY_CBURST OR TOY_GATHER)) 0
                           (encodeTOY (hour12 cfg) newtime) g2 = (r, g3)"
    by (cases "writeTOY (ucast (TOY_CBURST OR TOY_GATHER)) 0 (encodeTOY (hour12 cfg) newtime) g2")
  obtain b fs1 where b: "backup_calib no_faults (fs_now w) name (files w) = (b, fs1)"
    by (cases "backup_calib no_faults (fs_now w) name (files w)")
  have b': "b = None"
    using b by (auto simp: backup_calib_def no_faults_def fputc_error_def Let_def
        split: option.splits)
  show ?thesis
    using assms(1,2,4-7) u u' wr b b'
    by (simp add: commit_set_def clock_gettime_def Let_def writeCalib_def install_calib_def
        no_faults_def)
qed



subsection \<open>setTOY: which drift rate is committed\<close>


subsection \<open>Two complete runs of setTOY\<close>

lemma replicate_num: "replicate (numeral n) x = x # replicate (pred_numeral n) x"
  by (simp add: numeral_eq_Suc)






lemma fmt_fixed_examples:
  "fmt_fixed 0 9 1700000001 = ''1700000001.000000000''"
  "fmt_fixed 0 9 1700000002 = ''1700000002.000000000''"
  "fmt_fixed 0 12 (- 0.000028974891) = ''-0.000028974891''"
  "fmt_fixed 0 3 (- 0.000028974891 * 1000000) = ''-28.975''"
  "fmt_fixed 0 12 ((real_of_int 946684801 - 1700000001) / (1700000001 - 1600806806.087274313))
     = ''-7.594424200801''"
  "fmt_fixed 0 3 ((real_of_int 946684801 - 1700000001) / (1700000001 - 1600806806.087274313)
                   * 1000000) = ''-7594424.201''"
  unfolding fmt_fixed_def Let_def
  by (simp_all add: pad_left_def nat_digits.simps replicate_num)



lemma to_time_t_int: "to_time_t (real_of_int k) = k"
  by (simp add: to_time_t_def)

lemma byte_of_bits_zero:
  "(\<forall>i<k. \<not> f (p + i)) \<Longrightarrow> byte_of_bits k 0 f p = 0"
proof (induction k arbitrary: p)
  case 0
  then show ?case by simp
next
  case (Suc k)
  have "\<not> f p" using Suc.prems [rule_format, of 0] by simp
  moreover have "\<forall>i<k. \<not> f (Suc p + i)"
    using Suc.prems by (metis Suc_less_eq add_Suc_shift)
  ultimately show ?case using Suc.IH [of "Suc p"] by simp
qed





lemma readCalib_cong:
  "calibfilename cfg' = calibfilename cfg \<Longrightarrow> readCalib L cfg' fs = readCalib L cfg fs"
  by (simp add: readCalib_def)

lemma timegm_tm_young: "timegm_civil tm_young = 1600893206"
  by (simp add: timegm_civil_def days_from_civil_def tm_young_def)

lemma gmtime_ex_2020:
  "gmtime_civil 1600893207
     = Some \<lparr>tm_sec = 27, tm_min = 33, tm_hour = 20, tm_mday = 23, tm_mon = 8,
             tm_year = 120, tm_wday = 3, tm_yday = 266, tm_isdst = 0\<rparr>"
  by code_simp

lemma formatTime_ex_2020:
  "formatTime libc_ex \<lparr>tm_sec = 27, tm_min = 33, tm_hour = 20, tm_mday = 23, tm_mon = 8,
             tm_year = 120, tm_wday = 3, tm_yday = 266, tm_isdst = 0\<rparr> 0
     = Inr ''Wed Sep 23 2020 20:33:27.000''"
  by (simp add: formatTime_def libc_ex_def strftime_c_def fmt_fixed_def pad_left_def
      nat_digits.simps replicate_small)

lemma fmt_fixed_2020: "fmt_fixed 0 9 1600893207 = ''1600893207.000000000''"
  unfolding fmt_fixed_def Let_def
  by (simp add: pad_left_def nat_digits.simps replicate_num)

lemma calib_text_young_run:
  "calib_text libc_ex (calib_ex\<lparr>lastset := 1600893207, valid := True\<rparr>)
       ''Wed Sep 23 2020 20:33:27.000''
     = ''1600893207.000000000 (Wed Sep 23 2020 20:33:27.000 UTC)'' @ [newline]
       @ ''-0.000028974891 (-28.975 PPM)'' @ [newline] @ ''UTC'' @ [newline]"
proof -
  have l: "lastset (calib_ex\<lparr>lastset := 1600893207, valid := True\<rparr>) = 1600893207"
    and d: "driftrate (calib_ex\<lparr>lastset := 1600893207, valid := True\<rparr>) = - 0.000028974891"
    by (simp_all add: calib_ex_def)
  have f: "fmt_f libc_ex = fmt_fixed"
    by (simp add: libc_ex_def)
  show ?thesis
    unfolding calib_text_def l d f fmt_fixed_examples fmt_fixed_2020
    by simp
qed



subsection \<open>setTOY on a young calibration\<close>

theorem setTOY_young_calibration_gate_witness:
  "valid (readCalib libc_ex cfg_ex (fs_ex (Some calib_file_ex)))
   \<and> \<not> force cfg_ex
   \<and> unat (calrundays cfg_ex) * 86400 < 2 ^ LENGTH(32)
   \<and> real_of_int 1600893206 - lastset (readCalib libc_ex cfg_ex (fs_ex (Some calib_file_ex)))
        < real (unat (calrundays cfg_ex) * 86400)
   \<and> fst (setTOY libc_ex cfg_ex tm_young (world_ex chip_halted 1600893206 (Some calib_file_ex)))
        = Inl EX_UNAVAILABLE
   \<and> files (snd (setTOY libc_ex cfg_ex tm_young
                   (world_ex chip_halted 1600893206 (Some calib_file_ex))))
        = fs_ex (Some calib_file_ex)
   \<and> valid (readCalib libc_ex cfg_wrap (fs_ex (Some calib_file_ex)))
   \<and> \<not> force cfg_wrap
   \<and> unat (calrundays cfg_wrap) = 49711
   \<and> unat (calrundays cfg_wrap) * 86400 mod 2 ^ LENGTH(32) = 63104
   \<and> real_of_int 1600893206 - lastset (readCalib libc_ex cfg_wrap (fs_ex (Some calib_file_ex)))
        < real (unat (calrundays cfg_wrap) * 86400)
   \<and> fst (setTOY libc_ex cfg_wrap tm_young
            (world_ex chip_halted 1600893206 (Some calib_file_ex))) = Inr ()
   \<and> files (snd (setTOY libc_ex cfg_wrap tm_young
                   (world_ex chip_halted 1600893206 (Some calib_file_ex)))) ''/etc/rtc-ctl.dat''
        = Some (written 1600893206
           (''1600893207.000000000 (Wed Sep 23 2020 20:33:27.000 UTC)'' @ [newline]
            @ ''-0.000028974891 (-28.975 PPM)'' @ [newline] @ ''UTC'' @ [newline]))
   \<and> fs_ex (Some calib_file_ex) ''/etc/rtc-ctl.dat''
        \<noteq> Some (written 1600893206
           (''1600893207.000000000 (Wed Sep 23 2020 20:33:27.000 UTC)'' @ [newline]
            @ ''-0.000028974891 (-28.975 PPM)'' @ [newline] @ ''UTC'' @ [newline]))"
proof -
  define w where "w = world_ex chip_halted 1600893206 (Some calib_file_ex)"
  have host: "clock w (clock_pos w) = Some \<lparr>tv_sec = 1600893206, tv_nsec = 0\<rparr>"
    by (simp add: w_def world_ex_simps clock_ex_def)
  have rc: "readCalib libc_ex cfg_ex (files w) = calib_ex"
    by (simp add: w_def world_ex_simps readCalib_ex)
  have rcw: "readCalib libc_ex cfg_wrap (files w) = calib_ex"
    using readCalib_cong [of cfg_wrap cfg_ex libc_ex "files w"]
    by (simp add: cfg_wrap_def rc)
  have v: "valid (readCalib libc_ex cfg_ex (files w))"
    and vw: "valid (readCalib libc_ex cfg_wrap (files w))"
    by (simp_all add: rc rcw calib_ex_def)
  have nf: "\<not> force cfg_ex" and nfw: "\<not> force cfg_wrap"
    by (simp_all add: cfg_wrap_def cfg_ex_def)
  have d12: "unat (calrundays cfg_ex) * 86400 = 1036800"
    and d49711: "unat (calrundays cfg_wrap) = 49711"
    by (simp_all add: cfg_wrap_def cfg_ex_def)
  have m: "unat (calrundays cfg_wrap) * 86400 mod 2 ^ LENGTH(32) = 63104"
    by (simp add: d49711)
  have nt: "timegm libc_ex tm_young = 1600893206"
    by (simp add: libc_ex_def timegm_tm_young)
  have ts: "ts_seconds \<lparr>tv_sec = 1600893206, tv_nsec = 0\<rparr> = 1600893206"
    "ts_seconds \<lparr>tv_sec = 1600893207, tv_nsec = 0\<rparr> = 1600893207"
    by (simp_all add: ts_seconds_def)
  have young: "unat (calrundays cfg_ex) * 86400 < 2 ^ LENGTH(32)
      \<and> real_of_int (tv_sec \<lparr>tv_sec = 1600893206, tv_nsec = 0\<rparr>)
            - lastset (readCalib libc_ex cfg_ex (files w))
          < real (unat (calrundays cfg_ex) * 86400)"
    unfolding d12 rc by (simp add: calib_ex_def)
  have A: "setTOY libc_ex cfg_ex tm_young w = (Inl EX_UNAVAILABLE, w\<lparr>clock_pos := clock_pos w + 1\<rparr>)"
    using setTOY_young_calibration_gate [OF host v nf refl, of tm_young,
        THEN conjunct2, THEN conjunct1, rule_format, OF young] .
  have not_young: "\<not> real_of_int (tv_sec \<lparr>tv_sec = 1600893206, tv_nsec = 0\<rparr>)
            - lastset (readCalib libc_ex cfg_wrap (files w))
          < real (unat (calrundays cfg_wrap) * 86400 mod 2 ^ LENGTH(32))"
    unfolding m rcw by (simp add: calib_ex_def)
  define w1 where "w1 = w\<lparr>clock_pos := clock_pos w + 1\<rparr>"
  define g1 where "g1 = snd (read_clock (replicate TOY_CLK_REGS 0) (pins w1))"
  have p: "io_in (pins w1) = chip_halted" "io_pos (pins w1) = 0"
    by (simp_all add: w1_def w_def world_ex_simps)
  have g: "io_in g1 = chip_halted" "io_pos g1 = 64"
    using read_clock_eq [of "replicate TOY_CLK_REGS 0" "pins w1"] p by (simp_all add: g1_def)
  have fd: "fit_drift libc_ex cfg_wrap calib_ex 1600893206 w1 = (Inr calib_ex, w1\<lparr>pins := g1\<rparr>)"
    using fit_drift_due [where c = calib_ex and newt = 1600893206 and cfg = cfg_wrap
        and ?s0.0 = "chip_sample chip_halted 0" and w = w1 and ?g1.0 = g1 and L = libc_ex]
    by (simp add: p g1_def calib_ex_def calrun_seconds_wrap chip_sample_halted_0 reg_at_def
        OFFSET_simps mask_defs)
  define w2 where "w2 = w1\<lparr>pins := g1\<rparr>"
  have B: "setTOY libc_ex cfg_wrap tm_young w
             = commit_set libc_ex cfg_wrap calib_ex 1600893206 1600893206 w2"
    using setTOY_young_calibration_gate [OF host vw nfw refl, of tm_young,
        THEN conjunct2, THEN conjunct2, rule_format, OF not_young]
    unfolding rcw nt ts w1_def [symmetric] fd w2_def [symmetric]
    by simp
  have c1: "clock w2 (clock_pos w2) = Some \<lparr>tv_sec = 1600893207, tv_nsec = 0\<rparr>"
    by (simp add: w2_def w1_def w_def world_ex_simps clock_ex_def)
  have c2: "gmtime_r libc_ex (to_time_t (real_of_int 1600893206
                + (ts_seconds \<lparr>tv_sec = 1600893207, tv_nsec = 0\<rparr> - 1600893206)))
              = Some \<lparr>tm_sec = 27, tm_min = 33, tm_hour = 20, tm_mday = 23, tm_mon = 8,
                      tm_year = 120, tm_wday = 3, tm_yday = 266, tm_isdst = 0\<rparr>"
    using to_time_t_int [of 1600893207]
    by (simp add: ts_seconds_def libc_ex_def gmtime_ex_2020)
  have z: "byte_of_bits 8 0 chip_halted 64 = 0"
    by (rule byte_of_bits_zero) (simp add: chip_halted_def)
  have c3: "fst (unlockTOY (testmode cfg_wrap) (pins w2)) = Inr ()"
    by (simp add: unlockTOY_eq w2_def g z cfg_wrap_def cfg_ex_def)
  have c4: "calibfilename cfg_wrap = Some ''/etc/rtc-ctl.dat''"
    by (simp add: cfg_wrap_def cfg_ex_def)
  have c5: "gmtime_r libc_ex (tv_sec \<lparr>tv_sec = 1600893207, tv_nsec = 0\<rparr>)
              = Some \<lparr>tm_sec = 27, tm_min = 33, tm_hour = 20, tm_mday = 23, tm_mon = 8,
                      tm_year = 120, tm_wday = 3, tm_yday = 266, tm_isdst = 0\<rparr>"
    by (simp add: libc_ex_def gmtime_ex_2020)
  have c6: "formatTime libc_ex \<lparr>tm_sec = 27, tm_min = 33, tm_hour = 20, tm_mday = 23,
                tm_mon = 8, tm_year = 120, tm_wday = 3, tm_yday = 266, tm_isdst = 0\<rparr>
              (tv_nsec \<lparr>tv_sec = 1600893207, tv_nsec = 0\<rparr>)
              = Inr ''Wed Sep 23 2020 20:33:27.000''"
    by (simp add: formatTime_ex_2020)
  have c7: "faults w2 = no_faults"
    by (simp add: w2_def w1_def w_def world_ex_simps)
  have now: "fs_now w2 = 1600893206"
    by (simp add: w2_def w1_def w_def world_ex_simps)
  have C: "fst (setTOY libc_ex cfg_wrap tm_young w) = Inr ()
      \<and> files (snd (setTOY libc_ex cfg_wrap tm_young w)) ''/etc/rtc-ctl.dat''
       = Some (written 1600893206
           (''1600893207.000000000 (Wed Sep 23 2020 20:33:27.000 UTC)'' @ [newline]
            @ ''-0.000028974891 (-28.975 PPM)'' @ [newline] @ ''UTC'' @ [newline]))"
    using commit_set_persists [OF c1 c2 c3 c4 c5 c6 c7, of calib_ex]
    unfolding B now ts calib_text_young_run
    by simp
  have D: "real_of_int 1600893206 - lastset (readCalib libc_ex cfg_wrap (files w))
        < real (unat (calrundays cfg_wrap) * 86400)"
    unfolding d49711 rcw by (simp add: calib_ex_def)
  have E: "fs_ex (Some calib_file_ex) ''/etc/rtc-ctl.dat''
        \<noteq> Some (written 1600893206
           (''1600893207.000000000 (Wed Sep 23 2020 20:33:27.000 UTC)'' @ [newline]
            @ ''-0.000028974891 (-28.975 PPM)'' @ [newline] @ ''UTC'' @ [newline]))"
    by (simp add: fs_ex_simps written_def calib_file_ex_def)
  have F: "files w = fs_ex (Some calib_file_ex)"
    by (simp add: w_def world_ex_simps)
  have G1: "unat (calrundays cfg_ex) * 86400 < 2 ^ LENGTH(32)"
    using young by simp
  have G2: "real_of_int 1600893206
              - lastset (readCalib libc_ex cfg_ex (fs_ex (Some calib_file_ex)))
            < real (unat (calrundays cfg_ex) * 86400)"
    unfolding d12 readCalib_ex by (simp add: calib_ex_def)
  have A1: "fst (setTOY libc_ex cfg_ex tm_young w) = Inl EX_UNAVAILABLE"
    and A2: "files (snd (setTOY libc_ex cfg_ex tm_young w)) = fs_ex (Some calib_file_ex)"
    using A F by simp_all
  show ?thesis
    using v [unfolded F] nf G1 G2 A1 A2 vw [unfolded F] nfw d49711 m D [unfolded F] C E
    unfolding w_def
    by blast
qed

end
